theory Spec2Isabelle
  imports Main "HOL-Library.Word"
begin

section \<open>The renderer-side IPC endpoint\<close>

text \<open>
  A shallow embedding of \<^verbatim>\<open>shell/renderer/api/electron_api_renderer_ipc.cc\<close>:
  the class \<^verbatim>\<open>IPCRenderer\<close>, its constructor and its six methods
  (\<^verbatim>\<open>send\<close>, \<^verbatim>\<open>sendSync\<close>, \<^verbatim>\<open>sendTo\<close>, \<^verbatim>\<open>sendToHost\<close>, \<^verbatim>\<open>invoke\<close>,
  \<^verbatim>\<open>postMessage\<close>). The methods mutate the engine (a pending exception, the
  objects of the heap) and drive the remote stub \<^verbatim>\<open>electron_browser_ptr_\<close>; both are
  state that each method takes and returns.
\<close>

subsection \<open>The engine\<close>

text \<open>
  \<^verbatim>\<open>v8::Isolate\<close>: the exception that the method leaves pending for its caller, and
  the heap of engine objects, whose type is left open.
\<close>

record 'h v8_isolate =
  pending_exception :: "string option"
  heap :: 'h

text \<open>
  \<^verbatim>\<open>isolate->ThrowException(v8::Exception::Error(gin::StringToV8(isolate, msg)))\<close>.
\<close>

definition ThrowException :: "'h v8_isolate \<Rightarrow> string \<Rightarrow> 'h v8_isolate" where
  "ThrowException isolate msg = isolate\<lparr>pending_exception := Some msg\<rparr>"

subsection \<open>Collaborators declared outside the file\<close>

text \<open>
  The functions that the file calls and does not define are parameters, with the
  signatures of their C++ declarations. Type \<open>'v\<close> is \<^verbatim>\<open>v8::Local<v8::Value>\<close>,
  \<open>'m\<close> the contents of a \<^verbatim>\<open>blink::CloneableMessage\<close>, \<open>'p\<close> a
  \<^verbatim>\<open>blink::MessagePortChannel\<close>.

  \<^item> \<open>SerializeV8Value isolate value\<close>: \<^verbatim>\<open>bool SerializeV8Value(isolate, value, &out)\<close>;
    \<open>None\<close> is \<^verbatim>\<open>false\<close>. It may change the engine (it runs in it).
  \<^item> \<open>DeserializeV8Value isolate message\<close>.
  \<^item> \<open>ConvertFromV8 isolate value\<close>: \<^verbatim>\<open>gin::ConvertFromV8\<close> at type
    \<^verbatim>\<open>std::vector<v8::Local<v8::Object>>\<close>; \<open>None\<close> is \<^verbatim>\<open>false\<close>.
  \<^item> \<open>DisentangleAndExtractMessagePortChannel isolate object\<close>: \<open>None\<close> is
    \<^verbatim>\<open>base::nullopt\<close>. It changes the engine: the port is disentangled.
  \<^item> \<open>MessageSync_result internal channel message\<close>: what the blocking stub call
    \<^verbatim>\<open>MessageSync(internal, channel, message, &result)\<close> writes to its out-parameter;
    \<open>None\<close> when it writes nothing, and \<^verbatim>\<open>result\<close> keeps its default-constructed
    contents \<open>default_message\<close> (the method ignores the call's status).
\<close>

record ('v, 'm, 'p, 'h) collaborators =
  SerializeV8Value :: "'h v8_isolate \<Rightarrow> 'v \<Rightarrow> 'h v8_isolate \<times> 'm option"
  DeserializeV8Value :: "'h v8_isolate \<Rightarrow> 'm \<Rightarrow> 'v"
  ConvertFromV8 :: "'h v8_isolate \<Rightarrow> 'v \<Rightarrow> 'v list option"
  DisentangleAndExtractMessagePortChannel :: "'h v8_isolate \<Rightarrow> 'v \<Rightarrow> 'h v8_isolate \<times> 'p option"
  MessageSync_result :: "bool \<Rightarrow> string \<Rightarrow> 'm \<Rightarrow> 'm option"
  default_message :: 'm

subsection \<open>The remote stub and the trace of a run\<close>

text \<open>
  \<^verbatim>\<open>blink::TransferableMessage\<close>: a cloneable message and the ports moved with it.
\<close>

record ('m, 'p) transferable_message =
  cloneable :: 'm
  ports :: "'p list"

text \<open>
  The primitives of \<^verbatim>\<open>electron::mojom::ElectronBrowser\<close> that the methods call, with
  their arguments. \<open>Browser_Invoke\<close> carries the correlation id under which its
  continuation is registered.
\<close>

datatype ('m, 'p) stub_call =
    Browser_Message bool string 'm
  | Browser_Invoke bool string 'm nat
  | Browser_ReceivePostMessage string "('m, 'p) transferable_message"
  | Browser_MessageTo bool bool "32 word" string 'm
  | Browser_MessageHost string 'm
  | Browser_MessageSync bool string 'm

text \<open>
  What a method does, in the order in which it does it: the calls of the serializer, of
  the converter and of the port extractor, the calls of the remote stub, and the creation
  and resolution of promises.
\<close>

datatype ('v, 'm, 'p) event =
    Serialize_call 'v
  | Convert_call 'v
  | Extract_call 'v
  | Stub "('m, 'p) stub_call"
  | Promise_created nat
  | Promise_resolved nat 'v

text \<open>
  The continuation that \<^verbatim>\<open>Invoke\<close> binds with \<^verbatim>\<open>base::BindOnce\<close>: the lambda
  \<^verbatim>\<open>[](Promise p, CloneableMessage result) { p.Resolve(result); }\<close> closed over the
  promise \<open>p\<close>.
\<close>

datatype once_callback = Resolve_promise nat

text \<open>
  The state: the engine, the trace, the next promise that \<^verbatim>\<open>gin_helper::Promise\<close>
  creates, and the remote stub's table of outstanding asynchronous calls with its next
  correlation id.
\<close>

record ('v, 'm, 'p, 'h) world =
  isolate :: "'h v8_isolate"
  trace :: "('v, 'm, 'p) event list"
  next_promise :: nat
  pending_calls :: "nat \<rightharpoonup> once_callback"
  next_call_id :: nat

definition log_event :: "('v, 'm, 'p, 'h) world \<Rightarrow> ('v, 'm, 'p) event \<Rightarrow> ('v, 'm, 'p, 'h) world" where
  "log_event w e = w\<lparr>trace := trace w @ [e]\<rparr>"

text \<open>A call of a collaborator: its effect on the engine, and its place in the trace.\<close>

definition serialize ::
  "('v, 'm, 'p, 'h) collaborators \<Rightarrow> ('v, 'm, 'p, 'h) world \<Rightarrow> 'v \<Rightarrow> ('v, 'm, 'p, 'h) world \<times> 'm option" where
  "serialize env w v =
     (case SerializeV8Value env (isolate w) v of
        (isolate', out) \<Rightarrow> (log_event (w\<lparr>isolate := isolate'\<rparr>) (Serialize_call v), out))"

definition convert_transfer ::
  "('v, 'm, 'p, 'h) collaborators \<Rightarrow> ('v, 'm, 'p, 'h) world \<Rightarrow> 'v \<Rightarrow> ('v, 'm, 'p, 'h) world \<times> 'v list option" where
  "convert_transfer env w v = (log_event w (Convert_call v), ConvertFromV8 env (isolate w) v)"

definition extract_port ::
  "('v, 'm, 'p, 'h) collaborators \<Rightarrow> ('v, 'm, 'p, 'h) world \<Rightarrow> 'v \<Rightarrow> ('v, 'm, 'p, 'h) world \<times> 'p option" where
  "extract_port env w v =
     (case DisentangleAndExtractMessagePortChannel env (isolate w) v of
        (isolate', port) \<Rightarrow> (log_event (w\<lparr>isolate := isolate'\<rparr>) (Extract_call v), port))"

definition throw :: "('v, 'm, 'p, 'h) world \<Rightarrow> string \<Rightarrow> ('v, 'm, 'p, 'h) world" where
  "throw w msg = w\<lparr>isolate := ThrowException (isolate w) msg\<rparr>"

text \<open>A one-way or blocking primitive of the stub: the call is handed to the transport.\<close>

definition browser_call ::
  "('v, 'm, 'p, 'h) world \<Rightarrow> ('m, 'p) stub_call \<Rightarrow> ('v, 'm, 'p, 'h) world" where
  "browser_call w c = log_event w (Stub c)"

text \<open>
  Modelled from the spec: the Remote Stub's \<^verbatim>\<open>call_async(message, continuation)\<close> and
  its Pending-Call Table, which are generated from \<^verbatim>\<open>shell/common/api/api.mojom\<close> and
  are not in the file. Section 5: the call "registers a continuation keyed by a fresh
  correlation id"; section 3: the entry is "created at call issuance".
\<close>

definition browser_Invoke ::
  "('v, 'm, 'p, 'h) world \<Rightarrow> bool \<Rightarrow> string \<Rightarrow> 'm \<Rightarrow> once_callback \<Rightarrow> ('v, 'm, 'p, 'h) world" where
  "browser_Invoke w internal channel message callback =
     (let call_id = next_call_id w in
      (log_event w (Stub (Browser_Invoke internal channel message call_id)))
        \<lparr>pending_calls := (pending_calls w)(call_id \<mapsto> callback), next_call_id := Suc call_id\<rparr>)"

text \<open>
  \<^verbatim>\<open>gin_helper::Promise<blink::CloneableMessage> p(isolate)\<close>: a new promise.
\<close>

definition Promise_new :: "('v, 'm, 'p, 'h) world \<Rightarrow> ('v, 'm, 'p, 'h) world \<times> nat" where
  "Promise_new w =
     (let p = next_promise w in
      ((log_event w (Promise_created p))\<lparr>next_promise := Suc p\<rparr>, p))"

text \<open>
  Modelled from the spec: \<^verbatim>\<open>gin_helper::Promise<blink::CloneableMessage>::Resolve\<close>
  (\<^verbatim>\<open>shell/common/gin_helper/promise.h\<close>, not in the file). Section 6: the future
  "resolves with the decoded reply".
\<close>

definition Promise_Resolve ::
  "('v, 'm, 'p, 'h) collaborators \<Rightarrow> nat \<Rightarrow> 'm \<Rightarrow> ('v, 'm, 'p, 'h) world \<Rightarrow> ('v, 'm, 'p, 'h) world" where
  "Promise_Resolve env p result w =
     log_event w (Promise_resolved p (DeserializeV8Value env (isolate w) result))"

fun run_callback ::
  "('v, 'm, 'p, 'h) collaborators \<Rightarrow> once_callback \<Rightarrow> 'm \<Rightarrow> ('v, 'm, 'p, 'h) world \<Rightarrow> ('v, 'm, 'p, 'h) world" where
  "run_callback env (Resolve_promise p) result w = Promise_Resolve env p result w"

text \<open>
  Modelled from the spec: the reply-delivery path of the Remote Stub, not in the file.
  Section 3: a PendingCall is "resolved exactly once when the Remote Stub delivers the
  matching reply, removed from the Pending-Call Table immediately on resolution";
  section 8: "a reply with an unknown or already-resolved correlation id is discarded".
\<close>

definition deliver_reply ::
  "('v, 'm, 'p, 'h) collaborators \<Rightarrow> ('v, 'm, 'p, 'h) world \<Rightarrow> nat \<Rightarrow> 'm \<Rightarrow> ('v, 'm, 'p, 'h) world" where
  "deliver_reply env w call_id result =
     (case pending_calls w call_id of
        None \<Rightarrow> w
      | Some callback \<Rightarrow>
          run_callback env callback result (w\<lparr>pending_calls := (pending_calls w)(call_id := None)\<rparr>))"

subsection \<open>The six methods\<close>

definition Send ::
  "('v, 'm, 'p, 'h) collaborators \<Rightarrow> ('v, 'm, 'p, 'h) world \<Rightarrow> bool \<Rightarrow> string \<Rightarrow> 'v \<Rightarrow> ('v, 'm, 'p, 'h) world" where
  "Send env w internal channel arguments =
     (case serialize env w arguments of
        (w1, None) \<Rightarrow> w1
      | (w1, Some message) \<Rightarrow> browser_call w1 (Browser_Message internal channel message))"

text \<open>The result is the promise, or \<open>None\<close> for the empty handle \<^verbatim>\<open>v8::Local<v8::Promise>()\<close>.\<close>

definition Invoke ::
  "('v, 'm, 'p, 'h) collaborators \<Rightarrow> ('v, 'm, 'p, 'h) world \<Rightarrow> bool \<Rightarrow> string \<Rightarrow> 'v
     \<Rightarrow> ('v, 'm, 'p, 'h) world \<times> nat option" where
  "Invoke env w internal channel arguments =
     (case serialize env w arguments of
        (w1, None) \<Rightarrow> (w1, None)
      | (w1, Some message) \<Rightarrow>
          (case Promise_new w1 of
             (w2, p) \<Rightarrow>
               (let handle = p;
                    w3 = browser_Invoke w2 internal channel message (Resolve_promise p)
                in (w3, Some handle))))"

text \<open>
  The loop of \<^verbatim>\<open>PostMessage\<close> over \<^verbatim>\<open>transferables\<close>, with the vector \<^verbatim>\<open>ports\<close>
  built so far (\<open>channels\<close>); \<open>None\<close> is the \<^verbatim>\<open>return\<close> inside the loop.
\<close>

fun extract_ports ::
  "('v, 'm, 'p, 'h) collaborators \<Rightarrow> ('v, 'm, 'p, 'h) world \<Rightarrow> 'v list \<Rightarrow> 'p list
     \<Rightarrow> ('v, 'm, 'p, 'h) world \<times> 'p list option" where
  "extract_ports env w [] channels = (w, Some channels)"
| "extract_ports env w (transferable # transferables) channels =
     (case extract_port env w transferable of
        (w1, None) \<Rightarrow> (throw w1 ''Invalid value for transfer'', None)
      | (w1, Some port) \<Rightarrow> extract_ports env w1 transferables (channels @ [port]))"

definition PostMessage ::
  "('v, 'm, 'p, 'h) collaborators \<Rightarrow> ('v, 'm, 'p, 'h) world \<Rightarrow> string \<Rightarrow> 'v \<Rightarrow> 'v option
     \<Rightarrow> ('v, 'm, 'p, 'h) world" where
  "PostMessage env w channel message_value transfer =
     (case serialize env w message_value of
        (w1, None) \<Rightarrow> w1
      | (w1, Some message) \<Rightarrow>
          (case (case transfer of
                   None \<Rightarrow> (w1, Some [])
                 | Some t \<Rightarrow> convert_transfer env w1 t) of
             (w2, None) \<Rightarrow> throw w2 ''Invalid value for transfer''
           | (w2, Some transferables) \<Rightarrow>
               (case extract_ports env w2 transferables [] of
                  (w3, None) \<Rightarrow> w3
                | (w3, Some channels) \<Rightarrow>
                    browser_call w3
                      (Browser_ReceivePostMessage channel
                         \<lparr>cloneable = message, ports = channels\<rparr>))))"

definition SendTo ::
  "('v, 'm, 'p, 'h) collaborators \<Rightarrow> ('v, 'm, 'p, 'h) world \<Rightarrow> bool \<Rightarrow> bool \<Rightarrow> 32 word \<Rightarrow> string \<Rightarrow> 'v
     \<Rightarrow> ('v, 'm, 'p, 'h) world" where
  "SendTo env w internal send_to_all web_contents_id channel arguments =
     (case serialize env w arguments of
        (w1, None) \<Rightarrow> w1
      | (w1, Some message) \<Rightarrow>
          browser_call w1 (Browser_MessageTo internal send_to_all web_contents_id channel message))"

definition SendToHost ::
  "('v, 'm, 'p, 'h) collaborators \<Rightarrow> ('v, 'm, 'p, 'h) world \<Rightarrow> string \<Rightarrow> 'v \<Rightarrow> ('v, 'm, 'p, 'h) world" where
  "SendToHost env w channel arguments =
     (case serialize env w arguments of
        (w1, None) \<Rightarrow> w1
      | (w1, Some message) \<Rightarrow> browser_call w1 (Browser_MessageHost channel message))"

text \<open>The result is the value, or \<open>None\<close> for the empty handle \<^verbatim>\<open>v8::Local<v8::Value>()\<close>.\<close>

definition SendSync ::
  "('v, 'm, 'p, 'h) collaborators \<Rightarrow> ('v, 'm, 'p, 'h) world \<Rightarrow> bool \<Rightarrow> string \<Rightarrow> 'v
     \<Rightarrow> ('v, 'm, 'p, 'h) world \<times> 'v option" where
  "SendSync env w internal channel arguments =
     (case serialize env w arguments of
        (w1, None) \<Rightarrow> (w1, None)
      | (w1, Some message) \<Rightarrow>
          (let w2 = browser_call w1 (Browser_MessageSync internal channel message);
               result = (case MessageSync_result env internal channel message of
                           None \<Rightarrow> default_message env
                         | Some reply \<Rightarrow> reply)
           in (w2, Some (DeserializeV8Value env (isolate w2) result))))"

subsection \<open>Construction\<close>

text \<open>
  \<^verbatim>\<open>GetCurrentRenderFrame\<close>: \<open>frame\<close> is the result of
  \<^verbatim>\<open>WebLocalFrame::FrameForCurrentContext()\<close>, \<open>None\<close> for \<^verbatim>\<open>nullptr\<close>, and
  \<open>FromWebFrame\<close> is \<^verbatim>\<open>RenderFrame::FromWebFrame\<close>.
\<close>

definition GetCurrentRenderFrame :: "'f option \<Rightarrow> ('f \<Rightarrow> 'r option) \<Rightarrow> 'r option" where
  "GetCurrentRenderFrame frame FromWebFrame =
     (case frame of None \<Rightarrow> None | Some f \<Rightarrow> FromWebFrame f)"

text \<open>
  The object under construction: \<^verbatim>\<open>electron_browser_ptr_\<close>, unbound or bound through
  the remote interfaces of a render frame.
\<close>

datatype 'r browser_ptr = Unbound | Bound_through 'r

record 'r IPCRenderer_object =
  electron_browser_ptr_ :: "'r browser_ptr"

text \<open>
  A constructor either returns the object or ends the process: \<^verbatim>\<open>DCHECK(render_frame)\<close>
  aborts on \<^verbatim>\<open>nullptr\<close>, and where the check is compiled out the next statement
  dereferences \<^verbatim>\<open>nullptr\<close>. Neither throws into the engine nor returns an error value.
\<close>

datatype 'a construction = Process_aborted | Constructed 'a

definition IPCRenderer ::
  "'h v8_isolate \<Rightarrow> 'f option \<Rightarrow> ('f \<Rightarrow> 'r option) \<Rightarrow> ('h v8_isolate \<times> 'r IPCRenderer_object) construction" where
  "IPCRenderer engine frame FromWebFrame =
     (case GetCurrentRenderFrame frame FromWebFrame of
        None \<Rightarrow> Process_aborted
      | Some render_frame \<Rightarrow>
          Constructed (engine, \<lparr>electron_browser_ptr_ = Bound_through render_frame\<rparr>))"

subsection \<open>Reading a trace\<close>

fun stub_calls :: "('v, 'm, 'p) event list \<Rightarrow> ('m, 'p) stub_call list" where
  "stub_calls [] = []"
| "stub_calls (Stub c # es) = c # stub_calls es"
| "stub_calls (e # es) = stub_calls es"

fun extracted :: "('v, 'm, 'p) event list \<Rightarrow> 'v list" where
  "extracted [] = []"
| "extracted (Extract_call v # es) = v # extracted es"
| "extracted (e # es) = extracted es"

fun resolutions :: "nat \<Rightarrow> ('v, 'm, 'p) event list \<Rightarrow> 'v list" where
  "resolutions p [] = []"
| "resolutions p (Promise_resolved q v # es) =
     (if q = p then v # resolutions p es else resolutions p es)"
| "resolutions p (e # es) = resolutions p es"

fun is_serialize :: "('v, 'm, 'p) event \<Rightarrow> bool" where
  "is_serialize (Serialize_call v) = True"
| "is_serialize e = False"

fun is_extract :: "('v, 'm, 'p) event \<Rightarrow> bool" where
  "is_extract (Extract_call v) = True"
| "is_extract e = False"

text \<open>
  \<open>precedes P Q es\<close>: in \<open>es\<close>, every event that satisfies \<open>P\<close> comes before every
  event that satisfies \<open>Q\<close> (no \<open>Q\<close> is followed by a \<open>P\<close>).
\<close>

fun precedes :: "('e \<Rightarrow> bool) \<Rightarrow> ('e \<Rightarrow> bool) \<Rightarrow> 'e list \<Rightarrow> bool" where
  "precedes P Q [] = True"
| "precedes P Q (e # es) = ((if Q e then \<not> list_ex P es else True) \<and> precedes P Q es)"

text \<open>The events that a step from \<open>w\<close> to \<open>w'\<close> has added to the trace.\<close>

definition new_events :: "('v, 'm, 'p, 'h) world \<Rightarrow> ('v, 'm, 'p, 'h) world \<Rightarrow> ('v, 'm, 'p) event list" where
  "new_events w w' = drop (length (trace w)) (trace w')"

subsection \<open>The port extractor over a whole transfer list\<close>

text \<open>
  What the extractor yields on a list of nominated values, taken from left to right, each
  in the engine as the extractions before it have left it: the engine at the end and all
  the ports, or \<open>None\<close> from the first value that it rejects on.
\<close>

fun extract_all ::
  "('v, 'm, 'p, 'h) collaborators \<Rightarrow> 'h v8_isolate \<Rightarrow> 'v list \<Rightarrow> 'h v8_isolate \<times> 'p list option" where
  "extract_all env engine [] = (engine, Some [])"
| "extract_all env engine (t # ts) =
     (case DisentangleAndExtractMessagePortChannel env engine t of
        (engine1, None) \<Rightarrow> (engine1, None)
      | (engine1, Some port) \<Rightarrow>
          (case extract_all env engine1 ts of
             (engine2, None) \<Rightarrow> (engine2, None)
           | (engine2, Some channels) \<Rightarrow> (engine2, Some (port # channels))))"

text \<open>The nominated values that the extractor is called on: all up to the first rejected one.\<close>

fun attempted :: "('v, 'm, 'p, 'h) collaborators \<Rightarrow> 'h v8_isolate \<Rightarrow> 'v list \<Rightarrow> 'v list" where
  "attempted env engine [] = []"
| "attempted env engine (t # ts) =
     t # (case DisentangleAndExtractMessagePortChannel env engine t of
            (engine1, None) \<Rightarrow> []
          | (engine1, Some port) \<Rightarrow> attempted env engine1 ts)"

text \<open>
  Modelled from the spec: the contract of \<^verbatim>\<open>electron::SerializeV8Value\<close>
  (\<^verbatim>\<open>shell/common/v8_value_serializer.h\<close>, not in the file). Section 7: a
  SerializationError is "surfaced to the caller as a thrown/rejected error at the call
  site"; the file relies on it in \<^verbatim>\<open>PostMessage\<close>
  (\<^verbatim>\<open>// SerializeV8Value sets an exception.\<close>).
\<close>

definition serializer_sets_exception :: "('v, 'm, 'p, 'h) collaborators \<Rightarrow> bool" where
  "serializer_sets_exception env \<longleftrightarrow>
     (\<forall>engine v engine'. SerializeV8Value env engine v = (engine', None)
        \<longrightarrow> pending_exception engine' \<noteq> None)"

subsection \<open>Runs of the endpoint\<close>

definition initial_world :: "'h v8_isolate \<Rightarrow> ('v, 'm, 'p, 'h) world" where
  "initial_world engine =
     \<lparr>isolate = engine, trace = [], next_promise = 0, pending_calls = Map.empty, next_call_id = 0\<rparr>"

text \<open>
  What happens to an endpoint, one thing at a time: the script calls one of the six
  methods, the script does something else to the engine (it handles the pending
  exception, it creates or closes ports), or the transport delivers the reply of an
  asynchronous call.
\<close>

datatype ('v, 'm, 'h) action =
    Call_send bool string 'v
  | Call_sendSync bool string 'v
  | Call_sendTo bool bool "32 word" string 'v
  | Call_sendToHost string 'v
  | Call_invoke bool string 'v
  | Call_postMessage string 'v "'v option"
  | Script_runs "'h v8_isolate \<Rightarrow> 'h v8_isolate"
  | Reply_arrives nat 'm

fun step ::
  "('v, 'm, 'p, 'h) collaborators \<Rightarrow> ('v, 'm, 'p, 'h) world \<Rightarrow> ('v, 'm, 'h) action \<Rightarrow> ('v, 'm, 'p, 'h) world" where
  "step env w (Call_send internal channel v) = Send env w internal channel v"
| "step env w (Call_sendSync internal channel v) = fst (SendSync env w internal channel v)"
| "step env w (Call_sendTo internal send_to_all web_contents_id channel v) =
     SendTo env w internal send_to_all web_contents_id channel v"
| "step env w (Call_sendToHost channel v) = SendToHost env w channel v"
| "step env w (Call_invoke internal channel v) = fst (Invoke env w internal channel v)"
| "step env w (Call_postMessage channel v transfer) = PostMessage env w channel v transfer"
| "step env w (Script_runs f) = w\<lparr>isolate := f (isolate w)\<rparr>"
| "step env w (Reply_arrives call_id result) = deliver_reply env w call_id result"

fun run ::
  "('v, 'm, 'p, 'h) collaborators \<Rightarrow> ('v, 'm, 'p, 'h) world \<Rightarrow> ('v, 'm, 'h) action list \<Rightarrow> ('v, 'm, 'p, 'h) world" where
  "run env w [] = w"
| "run env w (a # as) = run env (step env w a) as"

fun is_reply_to :: "nat \<Rightarrow> ('v, 'm, 'h) action \<Rightarrow> bool" where
  "is_reply_to call_id (Reply_arrives i result) = (i = call_id)"
| "is_reply_to call_id a = False"

text \<open>
  The table of outstanding calls is well formed: every entry has an id that was issued
  and resolves a promise that was created and is unresolved, no two entries resolve the
  same promise, and no promise has been resolved twice or before its creation.
\<close>

definition table_ok :: "('v, 'm, 'p, 'h) world \<Rightarrow> bool" where
  "table_ok w \<longleftrightarrow>
     (\<forall>i p. pending_calls w i = Some (Resolve_promise p)
        \<longrightarrow> i < next_call_id w \<and> p < next_promise w \<and> resolutions p (trace w) = [])
   \<and> (\<forall>i j p. pending_calls w i = Some (Resolve_promise p)
        \<longrightarrow> pending_calls w j = Some (Resolve_promise p) \<longrightarrow> i = j)
   \<and> (\<forall>p. length (resolutions p (trace w)) \<le> 1)
   \<and> (\<forall>p. next_promise w \<le> p \<longrightarrow> resolutions p (trace w) = [])"

text \<open>
  A step from \<open>w\<close> to \<open>w'\<close> that leaves the table of outstanding calls and the
  promises as they are: it registers nothing, creates no promise and resolves none.
\<close>

definition leaves_calls :: "('v, 'm, 'p, 'h) world \<Rightarrow> ('v, 'm, 'p, 'h) world \<Rightarrow> bool" where
  "leaves_calls w w' \<longleftrightarrow>
     pending_calls w' = pending_calls w \<and> next_promise w' = next_promise w
   \<and> next_call_id w' = next_call_id w
   \<and> (\<forall>p. resolutions p (trace w') = resolutions p (trace w))"

subsection \<open>A concrete engine and remote side\<close>

text \<open>
  An instance of the collaborators, on which the methods are evaluated at concrete
  inputs. Functions and ports are not cloneable, and a cloneable value decodes to itself;
  a transfer list converts when it is an array of objects; extraction detaches a port,
  and a detached port is no longer a valid one. The heap is the list of the ports that
  have been detached; the remote side answers a blocking call with the channel and the
  payload that it has received.
\<close>

datatype js_value =
    JS_undefined
  | JS_number int
  | JS_string string
  | JS_function
  | JS_object
  | JS_MessagePort nat
  | JS_array "js_value list"

fun representable :: "js_value \<Rightarrow> bool" where
  "representable JS_function = False"
| "representable (JS_MessagePort n) = False"
| "representable v = True"

fun is_object :: "js_value \<Rightarrow> bool" where
  "is_object JS_undefined = False"
| "is_object (JS_number n) = False"
| "is_object (JS_string s) = False"
| "is_object v = True"

definition test_SerializeV8Value :: "nat list v8_isolate \<Rightarrow> js_value \<Rightarrow> nat list v8_isolate \<times> js_value option" where
  "test_SerializeV8Value engine v =
     (if representable v then (engine, Some v)
      else (ThrowException engine ''An object could not be cloned.'', None))"

fun test_ConvertFromV8 :: "nat list v8_isolate \<Rightarrow> js_value \<Rightarrow> js_value list option" where
  "test_ConvertFromV8 engine (JS_array vs) = (if list_all is_object vs then Some vs else None)"
| "test_ConvertFromV8 engine v = None"

fun test_Extract :: "nat list v8_isolate \<Rightarrow> js_value \<Rightarrow> nat list v8_isolate \<times> nat option" where
  "test_Extract engine (JS_MessagePort n) =
     (if n \<in> set (heap engine) then (engine, None)
      else (engine\<lparr>heap := heap engine @ [n]\<rparr>, Some n))"
| "test_Extract engine v = (engine, None)"

definition test_env :: "(js_value, js_value, nat, nat list) collaborators" where
  "test_env =
     \<lparr>SerializeV8Value = test_SerializeV8Value,
      DeserializeV8Value = (\<lambda>engine m. m),
      ConvertFromV8 = test_ConvertFromV8,
      DisentangleAndExtractMessagePortChannel = test_Extract,
      MessageSync_result = (\<lambda>internal channel m. Some (JS_array [JS_string channel, m])),
      default_message = JS_undefined\<rparr>"

definition test_engine :: "nat list v8_isolate" where
  "test_engine = \<lparr>pending_exception = None, heap = []\<rparr>"

definition test_world :: "(js_value, js_value, nat, nat list) world" where
  "test_world = initial_world test_engine"

section \<open>Helper lemmas\<close>

lemma stub_calls_append: "stub_calls (xs @ ys) = stub_calls xs @ stub_calls ys"
  by (induction xs rule: stub_calls.induct) simp_all

lemma extracted_append: "extracted (xs @ ys) = extracted xs @ extracted ys"
  by (induction xs rule: extracted.induct) simp_all

lemma resolutions_append: "resolutions p (xs @ ys) = resolutions p xs @ resolutions p ys"
  by (induction p xs rule: resolutions.induct) simp_all

lemma serialize_fails:
  "SerializeV8Value env (isolate w) v = (isolate', None) \<Longrightarrow>
   serialize env w v = (w\<lparr>isolate := isolate', trace := trace w @ [Serialize_call v]\<rparr>, None)"
  by (simp add: serialize_def log_event_def)

lemma serialize_succeeds:
  "SerializeV8Value env (isolate w) v = (isolate', Some m) \<Longrightarrow>
   serialize env w v = (w\<lparr>isolate := isolate', trace := trace w @ [Serialize_call v]\<rparr>, Some m)"
  by (simp add: serialize_def log_event_def)

lemma attempted_all:
  "extract_all env engine ts = (engine', Some channels) \<Longrightarrow> attempted env engine ts = ts"
  by (induction ts arbitrary: engine channels) (auto split: prod.splits option.splits)

lemma extract_all_length:
  "extract_all env engine ts = (engine', Some channels) \<Longrightarrow> length channels = length ts"
  by (induction ts arbitrary: engine channels) (auto split: prod.splits option.splits)

lemma extract_ports_eq:
  "extract_ports env w ts acc =
     (case extract_all env (isolate w) ts of
        (engine', None) \<Rightarrow>
          (w\<lparr>isolate := ThrowException engine' ''Invalid value for transfer'',
             trace := trace w @ map Extract_call (attempted env (isolate w) ts)\<rparr>, None)
      | (engine', Some channels) \<Rightarrow>
          (w\<lparr>isolate := engine',
             trace := trace w @ map Extract_call (attempted env (isolate w) ts)\<rparr>, Some (acc @ channels)))"
proof (induction ts arbitrary: w acc)
  case Nil
  show ?case by simp
next
  case (Cons t ts)
  show ?case
    by (simp add: Cons.IH extract_port_def log_event_def throw_def split: prod.splits option.splits)
qed

lemma extract_all_first_rejected:
  "extract_all env engine good = (engine2, Some channels) \<Longrightarrow>
   DisentangleAndExtractMessagePortChannel env engine2 bad = (engine3, None) \<Longrightarrow>
   extract_all env engine (good @ bad # rest) = (engine3, None)
   \<and> attempted env engine (good @ bad # rest) = good @ [bad]"
  by (induction good arbitrary: engine channels) (auto split: prod.splits option.splits)

lemma PostMessage_serialize_fails:
  "SerializeV8Value env (isolate w) v = (engine1, None) \<Longrightarrow>
   PostMessage env w channel v transfer = w\<lparr>isolate := engine1, trace := trace w @ [Serialize_call v]\<rparr>"
  by (simp add: PostMessage_def serialize_fails)

lemma PostMessage_convert_fails:
  "SerializeV8Value env (isolate w) v = (engine1, Some m) \<Longrightarrow>
   ConvertFromV8 env engine1 t = None \<Longrightarrow>
   PostMessage env w channel v (Some t) =
     w\<lparr>isolate := ThrowException engine1 ''Invalid value for transfer'',
       trace := trace w @ [Serialize_call v, Convert_call t]\<rparr>"
  by (simp add: PostMessage_def serialize_succeeds convert_transfer_def log_event_def throw_def)

lemma PostMessage_extract_fails:
  "SerializeV8Value env (isolate w) v = (engine1, Some m) \<Longrightarrow>
   ConvertFromV8 env engine1 t = Some ts \<Longrightarrow>
   extract_all env engine1 ts = (engine2, None) \<Longrightarrow>
   PostMessage env w channel v (Some t) =
     w\<lparr>isolate := ThrowException engine2 ''Invalid value for transfer'',
       trace := trace w @ [Serialize_call v, Convert_call t] @ map Extract_call (attempted env engine1 ts)\<rparr>"
  by (simp add: PostMessage_def serialize_succeeds convert_transfer_def log_event_def extract_ports_eq)

lemma PostMessage_sends:
  "SerializeV8Value env (isolate w) v = (engine1, Some m) \<Longrightarrow>
   ConvertFromV8 env engine1 t = Some ts \<Longrightarrow>
   extract_all env engine1 ts = (engine2, Some channels) \<Longrightarrow>
   PostMessage env w channel v (Some t) =
     w\<lparr>isolate := engine2,
       trace := trace w @ [Serialize_call v, Convert_call t] @ map Extract_call ts
                @ [Stub (Browser_ReceivePostMessage channel \<lparr>cloneable = m, ports = channels\<rparr>)]\<rparr>"
  by (simp add: PostMessage_def serialize_succeeds convert_transfer_def log_event_def extract_ports_eq
      attempted_all browser_call_def)

lemma PostMessage_no_transfer:
  "SerializeV8Value env (isolate w) v = (engine1, Some m) \<Longrightarrow>
   PostMessage env w channel v None =
     w\<lparr>isolate := engine1,
       trace := trace w @ [Serialize_call v,
                  Stub (Browser_ReceivePostMessage channel \<lparr>cloneable = m, ports = []\<rparr>)]\<rparr>"
  by (simp add: PostMessage_def serialize_succeeds log_event_def browser_call_def)

lemma stub_calls_map_Extract [simp]: "stub_calls (map Extract_call ts) = []"
  by (induction ts) simp_all

lemma extracted_map_Extract [simp]: "extracted (map Extract_call ts) = ts"
  by (induction ts) simp_all

section \<open>Serialization failure: nothing reaches the transport\<close>

text \<open>
  Claim C1. Each of the six methods (send, sendSync, sendTo, sendToHost, invoke,
  postMessage) returns as soon as the serialization of the supplied value fails: besides
  the call of the serializer and what that call did to the engine, nothing has happened.
  No primitive of the remote stub has been called (no message is handed to the
  transport), and no continuation has been registered.
\<close>

theorem serialization_failure_sends_nothing:
  assumes "SerializeV8Value env (isolate w) v = (engine', None)"
  shows "Send env w internal channel v
           = w\<lparr>isolate := engine', trace := trace w @ [Serialize_call v]\<rparr>
       \<and> SendSync env w internal channel v
           = (w\<lparr>isolate := engine', trace := trace w @ [Serialize_call v]\<rparr>, None)
       \<and> SendTo env w internal send_to_all web_contents_id channel v
           = w\<lparr>isolate := engine', trace := trace w @ [Serialize_call v]\<rparr>
       \<and> SendToHost env w channel v
           = w\<lparr>isolate := engine', trace := trace w @ [Serialize_call v]\<rparr>
       \<and> Invoke env w internal channel v
           = (w\<lparr>isolate := engine', trace := trace w @ [Serialize_call v]\<rparr>, None)
       \<and> PostMessage env w channel v transfer
           = w\<lparr>isolate := engine', trace := trace w @ [Serialize_call v]\<rparr>
       \<and> stub_calls (trace (w\<lparr>isolate := engine', trace := trace w @ [Serialize_call v]\<rparr>))
           = stub_calls (trace w)
       \<and> pending_calls (w\<lparr>isolate := engine', trace := trace w @ [Serialize_call v]\<rparr>)
           = pending_calls w"
  using assms
  by (simp add: Send_def SendSync_def SendTo_def SendToHost_def Invoke_def
      PostMessage_serialize_fails serialize_fails stub_calls_append)

theorem serialization_failure_sends_nothing_witness:
  "SerializeV8Value test_env (isolate test_world) JS_function
     = (ThrowException test_engine ''An object could not be cloned.'', None)
   \<and> stub_calls (trace (Send test_env test_world False ''ping'' JS_function)) = []
   \<and> stub_calls (trace (fst (SendSync test_env test_world False ''ping'' JS_function))) = []
   \<and> stub_calls (trace (SendTo test_env test_world False True 7 ''ping'' JS_function)) = []
   \<and> stub_calls (trace (SendToHost test_env test_world ''ping'' JS_function)) = []
   \<and> stub_calls (trace (fst (Invoke test_env test_world False ''ping'' JS_function))) = []
   \<and> stub_calls (trace (PostMessage test_env test_world ''ping'' JS_function
        (Some (JS_array [JS_MessagePort 1])))) = []"
proof -
  have fails: "SerializeV8Value test_env (isolate test_world) JS_function
      = (ThrowException test_engine ''An object could not be cloned.'', None)"
    by (simp add: test_env_def test_world_def initial_world_def test_SerializeV8Value_def)
  have empty: "trace test_world = []"
    by (simp add: test_world_def initial_world_def)
  show ?thesis
    using fails serialization_failure_sends_nothing
      [OF fails, of False "''ping''" True 7 "Some (JS_array [JS_MessagePort 1])"]
    by (simp add: empty)
qed

section \<open>Helper lemmas on the test engine and on traces\<close>

lemma precedes_absent: "\<not> list_ex P es \<Longrightarrow> precedes P Q es"
  by (induction es) auto

lemma list_ex_serialize_map_Extract [simp]: "\<not> list_ex is_serialize (map Extract_call ts)"
  by (induction ts) simp_all

lemma test_world_simps:
  "isolate test_world = test_engine" "trace test_world = []"
  "pending_calls test_world = Map.empty" "next_promise test_world = 0" "next_call_id test_world = 0"
  by (simp_all add: test_world_def initial_world_def)

lemma test_env_simps:
  "SerializeV8Value test_env = test_SerializeV8Value"
  "DeserializeV8Value test_env = (\<lambda>engine m. m)"
  "ConvertFromV8 test_env = test_ConvertFromV8"
  "DisentangleAndExtractMessagePortChannel test_env = test_Extract"
  "MessageSync_result test_env = (\<lambda>internal channel m. Some (JS_array [JS_string channel, m]))"
  "default_message test_env = JS_undefined"
  by (simp_all add: test_env_def)

section \<open>postMessage: the order of serialization and port extraction\<close>

text \<open>
  Claim C2, as stated: in postMessage, port extraction from the nominated transfer values
  precedes the serialization of the message payload. It fails: with a payload \<open>1\<close> and
  the transfer list \<open>[port 7]\<close> the serializer is called first, then the converter of
  the transfer list, then the extractor, then the stub.
\<close>

theorem postMessage_extraction_first_counterexample:
  "trace (PostMessage test_env test_world ''chan'' (JS_number 1) (Some (JS_array [JS_MessagePort 7])))
     = [Serialize_call (JS_number 1), Convert_call (JS_array [JS_MessagePort 7]),
        Extract_call (JS_MessagePort 7),
        Stub (Browser_ReceivePostMessage ''chan'' \<lparr>cloneable = JS_number 1, ports = [7]\<rparr>)]
   \<and> \<not> precedes is_extract is_serialize
         (trace (PostMessage test_env test_world ''chan'' (JS_number 1) (Some (JS_array [JS_MessagePort 7]))))"
proof -
  have ser: "SerializeV8Value test_env (isolate test_world) (JS_number 1) = (test_engine, Some (JS_number 1))"
    by (simp add: test_env_simps test_world_simps test_SerializeV8Value_def)
  have conv: "ConvertFromV8 test_env test_engine (JS_array [JS_MessagePort 7]) = Some [JS_MessagePort 7]"
    by (simp add: test_env_simps)
  have ext: "extract_all test_env test_engine [JS_MessagePort 7] = (test_engine\<lparr>heap := [7]\<rparr>, Some [7])"
    by (simp add: test_env_simps test_engine_def)
  show ?thesis
    by (simp add: PostMessage_sends [OF ser conv ext] test_world_simps)
qed

text \<open>
  Claim C2, amended: in postMessage, the serialization of the message payload precedes
  port extraction. For every call, the call of the serializer on the message value is
  the first thing that happens, it happens once, and every call of the port extractor
  comes after it.
\<close>

theorem postMessage_serializes_before_extracting:
  "\<exists>rest. trace (PostMessage env w channel v transfer) = trace w @ Serialize_call v # rest
        \<and> \<not> list_ex is_serialize rest
        \<and> precedes is_serialize is_extract (new_events w (PostMessage env w channel v transfer))"
proof -
  obtain engine1 out where ser: "SerializeV8Value env (isolate w) v = (engine1, out)"
    by (cases "SerializeV8Value env (isolate w) v")
  have "\<exists>rest. trace (PostMessage env w channel v transfer) = trace w @ Serialize_call v # rest
        \<and> \<not> list_ex is_serialize rest"
  proof (cases out)
    case None
    with ser show ?thesis by (simp add: PostMessage_serialize_fails)
  next
    case (Some m)
    note ser' = ser [unfolded Some]
    show ?thesis
    proof (cases transfer)
      case None
      then show ?thesis by (simp add: PostMessage_no_transfer [OF ser'])
    next
      case transfer: (Some t)
      show ?thesis
      proof (cases "ConvertFromV8 env engine1 t")
        case None
        then show ?thesis by (simp add: transfer PostMessage_convert_fails [OF ser'])
      next
        case conv: (Some ts)
        obtain engine2 res where ext: "extract_all env engine1 ts = (engine2, res)"
          by (cases "extract_all env engine1 ts")
        show ?thesis
        proof (cases res)
          case None
          with ext show ?thesis by (simp add: transfer PostMessage_extract_fails [OF ser' conv])
        next
          case (Some channels)
          with ext show ?thesis by (simp add: transfer PostMessage_sends [OF ser' conv])
        qed
      qed
    qed
  qed
  then obtain rest where rest: "trace (PostMessage env w channel v transfer) = trace w @ Serialize_call v # rest"
    and none: "\<not> list_ex is_serialize rest"
    by blast
  have "precedes is_serialize is_extract (Serialize_call v # rest)"
    using none by (simp add: precedes_absent)
  then have "precedes is_serialize is_extract (new_events w (PostMessage env w channel v transfer))"
    by (simp add: new_events_def rest)
  with rest none show ?thesis by blast
qed

theorem postMessage_serializes_before_extracting_witness:
  "precedes is_serialize is_extract
     [Serialize_call (JS_number 1), Convert_call (JS_array [JS_MessagePort 7]),
      Extract_call (JS_MessagePort 7),
      Stub (Browser_ReceivePostMessage ''chan'' \<lparr>cloneable = JS_number 1, ports = [7::nat]\<rparr>)]
   \<and> (\<exists>rest. trace (PostMessage test_env test_world ''chan'' (JS_number 1) (Some (JS_array [JS_MessagePort 7])))
          = trace test_world @ Serialize_call (JS_number 1) # rest
        \<and> \<not> list_ex is_serialize rest
        \<and> precedes is_serialize is_extract (new_events test_world
            (PostMessage test_env test_world ''chan'' (JS_number 1) (Some (JS_array [JS_MessagePort 7])))))"
  using postMessage_serializes_before_extracting
    [of test_env test_world "''chan''" "JS_number 1" "Some (JS_array [JS_MessagePort 7])"]
  by simp

section \<open>sendSync: the decoded reply, or an empty value\<close>

text \<open>
  Claim C3. When the argument serializes, sendSync hands the message to the blocking
  primitive of the remote stub, once, and returns the deserialization of what that call
  has left in \<^verbatim>\<open>result\<close>: the reply that the call has produced (and, should the call
  write none, the default-constructed message). When the serialization of the argument
  fails, sendSync returns the empty value, and besides the call of the serializer
  nothing has happened: nothing has been handed to the stub.
\<close>

theorem sendSync_returns_decoded_reply:
  "(SerializeV8Value env (isolate w) v = (engine1, Some m)
      \<longrightarrow> SendSync env w internal channel v
            = (w\<lparr>isolate := engine1,
                 trace := trace w @ [Serialize_call v, Stub (Browser_MessageSync internal channel m)]\<rparr>,
               Some (DeserializeV8Value env engine1
                 (case MessageSync_result env internal channel m of
                    None \<Rightarrow> default_message env
                  | Some reply \<Rightarrow> reply))))
   \<and> (SerializeV8Value env (isolate w) v = (engine1, None)
      \<longrightarrow> SendSync env w internal channel v
            = (w\<lparr>isolate := engine1, trace := trace w @ [Serialize_call v]\<rparr>, None)
        \<and> stub_calls (trace (fst (SendSync env w internal channel v))) = stub_calls (trace w))"
  by (simp add: SendSync_def serialize_succeeds serialize_fails browser_call_def log_event_def
      stub_calls_append)

theorem sendSync_returns_decoded_reply_witness:
  "SerializeV8Value test_env (isolate test_world) (JS_array [JS_number 2, JS_number 3])
     = (test_engine, Some (JS_array [JS_number 2, JS_number 3]))
   \<and> SendSync test_env test_world False ''add'' (JS_array [JS_number 2, JS_number 3])
     = (test_world\<lparr>isolate := test_engine,
          trace := [Serialize_call (JS_array [JS_number 2, JS_number 3]),
                    Stub (Browser_MessageSync False ''add'' (JS_array [JS_number 2, JS_number 3]))]\<rparr>,
        Some (JS_array [JS_string ''add'', JS_array [JS_number 2, JS_number 3]]))
   \<and> SerializeV8Value (test_env\<lparr>MessageSync_result := \<lambda>internal channel m. None\<rparr>)
        (isolate test_world) (JS_number 4)
     = (test_engine, Some (JS_number 4))
   \<and> SendSync (test_env\<lparr>MessageSync_result := \<lambda>internal channel m. None\<rparr>)
        test_world False ''add'' (JS_number 4)
     = (test_world\<lparr>isolate := test_engine,
          trace := [Serialize_call (JS_number 4),
                    Stub (Browser_MessageSync False ''add'' (JS_number 4))]\<rparr>,
        Some JS_undefined)
   \<and> SerializeV8Value test_env (isolate test_world) JS_function
     = (ThrowException test_engine ''An object could not be cloned.'', None)
   \<and> SendSync test_env test_world False ''add'' JS_function
     = (test_world\<lparr>isolate := ThrowException test_engine ''An object could not be cloned.'',
          trace := [Serialize_call JS_function]\<rparr>, None)
   \<and> stub_calls (trace (fst (SendSync test_env test_world False ''add'' JS_function))) = []"
proof -
  have ok: "SerializeV8Value test_env (isolate test_world) (JS_array [JS_number 2, JS_number 3])
     = (test_engine, Some (JS_array [JS_number 2, JS_number 3]))"
    by (simp add: test_env_simps test_world_simps test_SerializeV8Value_def)
  have silent: "SerializeV8Value (test_env\<lparr>MessageSync_result := \<lambda>internal channel m. None\<rparr>)
        (isolate test_world) (JS_number 4)
     = (test_engine, Some (JS_number 4))"
    by (simp add: test_env_simps test_world_simps test_SerializeV8Value_def)
  have fails: "SerializeV8Value test_env (isolate test_world) JS_function
     = (ThrowException test_engine ''An object could not be cloned.'', None)"
    by (simp add: test_env_simps test_world_simps test_SerializeV8Value_def)
  have replied: "SendSync test_env test_world False ''add'' (JS_array [JS_number 2, JS_number 3])
     = (test_world\<lparr>isolate := test_engine,
          trace := [Serialize_call (JS_array [JS_number 2, JS_number 3]),
                    Stub (Browser_MessageSync False ''add'' (JS_array [JS_number 2, JS_number 3]))]\<rparr>,
        Some (JS_array [JS_string ''add'', JS_array [JS_number 2, JS_number 3]]))"
    using ok sendSync_returns_decoded_reply [where env = test_env and w = test_world
        and v = "JS_array [JS_number 2, JS_number 3]" and ?engine1.0 = test_engine
        and m = "JS_array [JS_number 2, JS_number 3]" and internal = False and channel = "''add''"]
    by (simp add: test_world_simps test_env_simps)
  have unanswered: "SendSync (test_env\<lparr>MessageSync_result := \<lambda>internal channel m. None\<rparr>)
        test_world False ''add'' (JS_number 4)
     = (test_world\<lparr>isolate := test_engine,
          trace := [Serialize_call (JS_number 4),
                    Stub (Browser_MessageSync False ''add'' (JS_number 4))]\<rparr>,
        Some JS_undefined)"
    using silent sendSync_returns_decoded_reply
        [where env = "test_env\<lparr>MessageSync_result := \<lambda>internal channel m. None\<rparr>"
        and w = test_world and v = "JS_number 4" and ?engine1.0 = test_engine
        and m = "JS_number 4" and internal = False and channel = "''add''"]
    by (simp add: test_world_simps test_env_simps)
  have failed: "SendSync test_env test_world False ''add'' JS_function
     = (test_world\<lparr>isolate := ThrowException test_engine ''An object could not be cloned.'',
          trace := [Serialize_call JS_function]\<rparr>, None)
     \<and> stub_calls (trace (fst (SendSync test_env test_world False ''add'' JS_function))) = []"
    using fails sendSync_returns_decoded_reply [where env = test_env and w = test_world
        and v = JS_function and ?engine1.0 = "ThrowException test_engine ''An object could not be cloned.''"
        and m = JS_undefined and internal = False and channel = "''add''"]
    by (simp add: test_world_simps)
  from ok silent fails replied unanswered failed show ?thesis
    by blast
qed

section \<open>Construction\<close>

text \<open>
  Claim C7. Construction has the precondition that the current context has a frame and
  that this frame has its render frame, the counterpart through which the remote
  interfaces are reached. When it holds, the constructor returns the endpoint with its
  transport handle bound through that render frame, and the failure branch is not taken.
  When the context has no frame, or has a frame without a render frame, construction
  ends the process: it does not return, with or without an error.
\<close>

theorem construction_requires_frame:
  "(frame = Some f \<longrightarrow> FromWebFrame f = Some render_frame
      \<longrightarrow> GetCurrentRenderFrame frame FromWebFrame = Some render_frame
        \<and> IPCRenderer engine frame FromWebFrame
            = Constructed (engine, \<lparr>electron_browser_ptr_ = Bound_through render_frame\<rparr>)
        \<and> IPCRenderer engine frame FromWebFrame \<noteq> Process_aborted)
   \<and> (frame = None
      \<longrightarrow> GetCurrentRenderFrame frame FromWebFrame = None
        \<and> IPCRenderer engine frame FromWebFrame = Process_aborted)
   \<and> (frame = Some f \<longrightarrow> FromWebFrame f = None
      \<longrightarrow> GetCurrentRenderFrame frame FromWebFrame = None
        \<and> IPCRenderer engine frame FromWebFrame = Process_aborted)"
  by (simp add: IPCRenderer_def GetCurrentRenderFrame_def)

theorem construction_requires_frame_witness:
  "(\<lambda>f. if f = (1::nat) then Some (11::nat) else None) 1 = Some 11
   \<and> IPCRenderer test_engine (Some (1::nat)) (\<lambda>f. if f = 1 then Some (11::nat) else None)
       = Constructed (test_engine, \<lparr>electron_browser_ptr_ = Bound_through (11::nat)\<rparr>)
   \<and> IPCRenderer test_engine (None :: nat option) (\<lambda>f. if f = 1 then Some (11::nat) else None)
       = Process_aborted
   \<and> (\<lambda>f. if f = (1::nat) then Some (11::nat) else None) 2 = None
   \<and> IPCRenderer test_engine (Some (2::nat)) (\<lambda>f. if f = 1 then Some (11::nat) else None)
       = Process_aborted"
  using construction_requires_frame [where frame = "Some (1::nat)" and f = 1
      and FromWebFrame = "\<lambda>f. if f = 1 then Some (11::nat) else None" and render_frame = 11
      and engine = test_engine]
    construction_requires_frame [where frame = "None :: nat option" and f = 1
      and FromWebFrame = "\<lambda>f. if f = 1 then Some (11::nat) else None" and render_frame = 11
      and engine = test_engine]
    construction_requires_frame [where frame = "Some (2::nat)" and f = 2
      and FromWebFrame = "\<lambda>f. if f = 1 then Some (11::nat) else None" and render_frame = 11
      and engine = test_engine]
  by simp

section \<open>postMessage: a transfer list that is not a sequence of objects\<close>

lemma never_port_rejected:
  "t \<in> set ts \<Longrightarrow> \<forall>engine. snd (DisentangleAndExtractMessagePortChannel env engine t) = None \<Longrightarrow>
   snd (extract_all env engine1 ts) = None"
proof (induction ts arbitrary: engine1)
  case Nil
  then show ?case by simp
next
  case (Cons a ts)
  obtain e p where first: "DisentangleAndExtractMessagePortChannel env engine1 a = (e, p)"
    by (cases "DisentangleAndExtractMessagePortChannel env engine1 a")
  show ?case
  proof (cases p)
    case None
    with first show ?thesis by simp
  next
    case (Some port)
    with first Cons.prems have "t \<noteq> a"
      by (metis option.distinct(1) snd_conv)
    with Cons.prems have "t \<in> set ts" by simp
    then have "snd (extract_all env e ts) = None"
      using Cons.IH Cons.prems(2) by blast
    with first Some show ?thesis
      by (cases "extract_all env e ts") auto
  qed
qed

text \<open>
  Claim C10, as stated: whenever the transfer list is present and is not convertible to a
  sequence of objects, postMessage throws "Invalid value for transfer". It fails when
  the message value does not serialize: the method has returned before it looks at the
  transfer list, and the pending exception is the serializer's.
\<close>

theorem postMessage_unconvertible_transfer_counterexample:
  "ConvertFromV8 test_env test_engine (JS_number 42) = None
   \<and> pending_exception (isolate (PostMessage test_env test_world ''chan'' JS_function (Some (JS_number 42))))
       = Some ''An object could not be cloned.''
   \<and> pending_exception (isolate (PostMessage test_env test_world ''chan'' JS_function (Some (JS_number 42))))
       \<noteq> Some ''Invalid value for transfer''"
proof -
  have fails: "SerializeV8Value test_env (isolate test_world) JS_function
      = (ThrowException test_engine ''An object could not be cloned.'', None)"
    by (simp add: test_env_simps test_world_simps test_SerializeV8Value_def)
  show ?thesis
    by (simp add: PostMessage_serialize_fails [OF fails] test_env_simps ThrowException_def)
qed

text \<open>
  Claim C10, amended: if the message value serializes and the transfer list is present
  and is not convertible to a sequence of objects, postMessage throws
  "Invalid value for transfer"; no message is sent and no port is extracted: the
  extractor is not called, and the engine is as the serializer has left it, apart from
  the exception.
\<close>

theorem postMessage_unconvertible_transfer:
  assumes "SerializeV8Value env (isolate w) v = (engine1, Some m)"
      and "ConvertFromV8 env engine1 t = None"
  shows "PostMessage env w channel v (Some t)
           = w\<lparr>isolate := ThrowException engine1 ''Invalid value for transfer'',
               trace := trace w @ [Serialize_call v, Convert_call t]\<rparr>
       \<and> pending_exception (isolate (PostMessage env w channel v (Some t)))
           = Some ''Invalid value for transfer''
       \<and> heap (isolate (PostMessage env w channel v (Some t))) = heap engine1
       \<and> stub_calls (trace (PostMessage env w channel v (Some t))) = stub_calls (trace w)
       \<and> extracted (trace (PostMessage env w channel v (Some t))) = extracted (trace w)"
  by (simp add: PostMessage_convert_fails [OF assms] ThrowException_def stub_calls_append
      extracted_append)

theorem postMessage_unconvertible_transfer_witness:
  "SerializeV8Value test_env (isolate test_world) (JS_number 1) = (test_engine, Some (JS_number 1))
   \<and> ConvertFromV8 test_env test_engine (JS_number 42) = None
   \<and> pending_exception (isolate (PostMessage test_env test_world ''chan'' (JS_number 1) (Some (JS_number 42))))
       = Some ''Invalid value for transfer''
   \<and> stub_calls (trace (PostMessage test_env test_world ''chan'' (JS_number 1) (Some (JS_number 42)))) = []
   \<and> extracted (trace (PostMessage test_env test_world ''chan'' (JS_number 1) (Some (JS_number 42)))) = []"
proof -
  have ok: "SerializeV8Value test_env (isolate test_world) (JS_number 1) = (test_engine, Some (JS_number 1))"
    by (simp add: test_env_simps test_world_simps test_SerializeV8Value_def)
  have conv: "ConvertFromV8 test_env test_engine (JS_number 42) = None"
    by (simp add: test_env_simps)
  show ?thesis
    using ok conv postMessage_unconvertible_transfer [OF ok conv, of "''chan''"]
    by (simp add: test_world_simps ThrowException_def)
qed

section \<open>postMessage: a nominated value that is not a port\<close>

text \<open>
  Claim C5, as stated: every postMessage call whose transfer list holds a nominated value
  that is not a valid port raises the invalid-transfer error. It fails when the message
  value does not serialize: the method returns before the transfer list is looked at,
  and the error that the caller sees is the serializer's.
\<close>

theorem postMessage_invalid_target_counterexample:
  "ConvertFromV8 test_env test_engine (JS_array [JS_object]) = Some [JS_object]
   \<and> extract_all test_env test_engine [JS_object] = (test_engine, None)
   \<and> pending_exception (isolate (PostMessage test_env test_world ''chan'' JS_function
         (Some (JS_array [JS_object]))))
       = Some ''An object could not be cloned.''
   \<and> pending_exception (isolate (PostMessage test_env test_world ''chan'' JS_function
         (Some (JS_array [JS_object]))))
       \<noteq> Some ''Invalid value for transfer''"
proof -
  have fails: "SerializeV8Value test_env (isolate test_world) JS_function
      = (ThrowException test_engine ''An object could not be cloned.'', None)"
    by (simp add: test_env_simps test_world_simps test_SerializeV8Value_def)
  show ?thesis
    by (simp add: PostMessage_serialize_fails [OF fails] test_env_simps ThrowException_def)
qed

text \<open>
  Claim C5, amended: for every postMessage call whose message value serializes and whose
  transfer list holds a nominated value that is not a valid port (the list does not
  convert to a sequence of objects, or the port extractor rejects one of them, as it does
  a value that is never a port), the method throws "Invalid value for transfer" and no
  message is sent. And for every postMessage call whatsoever, either no message is sent,
  or one message is sent and it carries a port for each nominated value, all of them
  extracted.
\<close>

theorem postMessage_all_ports_or_nothing:
  "(SerializeV8Value env (isolate w) v = (engine1, Some m)
      \<longrightarrow> ConvertFromV8 env engine1 t = None
            \<or> (\<exists>ts. ConvertFromV8 env engine1 t = Some ts
                 \<and> (snd (extract_all env engine1 ts) = None
                    \<or> (\<exists>x \<in> set ts. \<forall>engine.
                          snd (DisentangleAndExtractMessagePortChannel env engine x) = None)))
      \<longrightarrow> pending_exception (isolate (PostMessage env w channel v (Some t)))
              = Some ''Invalid value for transfer''
        \<and> stub_calls (trace (PostMessage env w channel v (Some t))) = stub_calls (trace w))
   \<and> (stub_calls (new_events w (PostMessage env w channel v transfer)) = []
      \<or> (\<exists>engine1 m ts engine2 channels.
            SerializeV8Value env (isolate w) v = (engine1, Some m)
          \<and> (case transfer of None \<Rightarrow> ts = [] | Some t \<Rightarrow> ConvertFromV8 env engine1 t = Some ts)
          \<and> extract_all env engine1 ts = (engine2, Some channels)
          \<and> length channels = length ts
          \<and> stub_calls (new_events w (PostMessage env w channel v transfer))
              = [Browser_ReceivePostMessage channel \<lparr>cloneable = m, ports = channels\<rparr>]))"
proof (intro conjI impI)
  assume ser: "SerializeV8Value env (isolate w) v = (engine1, Some m)"
    and bad: "ConvertFromV8 env engine1 t = None
            \<or> (\<exists>ts. ConvertFromV8 env engine1 t = Some ts
                 \<and> (snd (extract_all env engine1 ts) = None
                    \<or> (\<exists>x \<in> set ts. \<forall>engine.
                          snd (DisentangleAndExtractMessagePortChannel env engine x) = None)))"
  have "pending_exception (isolate (PostMessage env w channel v (Some t)))
              = Some ''Invalid value for transfer''
        \<and> stub_calls (trace (PostMessage env w channel v (Some t))) = stub_calls (trace w)"
  proof (rule disjE [OF bad])
    assume "ConvertFromV8 env engine1 t = None"
    then show ?thesis
      by (simp add: PostMessage_convert_fails [OF ser] ThrowException_def stub_calls_append)
  next
    assume "\<exists>ts. ConvertFromV8 env engine1 t = Some ts
                 \<and> (snd (extract_all env engine1 ts) = None
                    \<or> (\<exists>x \<in> set ts. \<forall>engine.
                          snd (DisentangleAndExtractMessagePortChannel env engine x) = None))"
    then obtain ts where conv: "ConvertFromV8 env engine1 t = Some ts"
      and rejected: "snd (extract_all env engine1 ts) = None
                    \<or> (\<exists>x \<in> set ts. \<forall>engine.
                          snd (DisentangleAndExtractMessagePortChannel env engine x) = None)"
      by blast
    have "snd (extract_all env engine1 ts) = None"
    proof (rule disjE [OF rejected])
      assume "snd (extract_all env engine1 ts) = None"
      then show ?thesis .
    next
      assume "\<exists>x \<in> set ts. \<forall>engine. snd (DisentangleAndExtractMessagePortChannel env engine x) = None"
      then obtain x where "x \<in> set ts"
        and "\<forall>engine. snd (DisentangleAndExtractMessagePortChannel env engine x) = None"
        by blast
      then show ?thesis by (rule never_port_rejected)
    qed
    then obtain engine2 where ext: "extract_all env engine1 ts = (engine2, None)"
      by (cases "extract_all env engine1 ts") simp
    show ?thesis
      by (simp add: PostMessage_extract_fails [OF ser conv ext] ThrowException_def stub_calls_append)
  qed
  then show "pending_exception (isolate (PostMessage env w channel v (Some t)))
      = Some ''Invalid value for transfer''"
    and "stub_calls (trace (PostMessage env w channel v (Some t))) = stub_calls (trace w)"
    by simp_all
next
  obtain engine1 out where ser: "SerializeV8Value env (isolate w) v = (engine1, out)"
    by (cases "SerializeV8Value env (isolate w) v")
  show "stub_calls (new_events w (PostMessage env w channel v transfer)) = []
      \<or> (\<exists>engine1 m ts engine2 channels.
            SerializeV8Value env (isolate w) v = (engine1, Some m)
          \<and> (case transfer of None \<Rightarrow> ts = [] | Some t \<Rightarrow> ConvertFromV8 env engine1 t = Some ts)
          \<and> extract_all env engine1 ts = (engine2, Some channels)
          \<and> length channels = length ts
          \<and> stub_calls (new_events w (PostMessage env w channel v transfer))
              = [Browser_ReceivePostMessage channel \<lparr>cloneable = m, ports = channels\<rparr>])"
  proof (cases out)
    case None
    with ser show ?thesis by (simp add: PostMessage_serialize_fails new_events_def)
  next
    case (Some m)
    note ser' = ser [unfolded Some]
    show ?thesis
    proof (cases transfer)
      case None
      have "stub_calls (new_events w (PostMessage env w channel v transfer))
              = [Browser_ReceivePostMessage channel \<lparr>cloneable = m, ports = []\<rparr>]"
        by (simp add: None PostMessage_no_transfer [OF ser'] new_events_def)
      with ser' None show ?thesis by auto
    next
      case transfer: (Some t)
      show ?thesis
      proof (cases "ConvertFromV8 env engine1 t")
        case None
        then show ?thesis by (simp add: transfer PostMessage_convert_fails [OF ser'] new_events_def)
      next
        case conv: (Some ts)
        obtain engine2 res where ext: "extract_all env engine1 ts = (engine2, res)"
          by (cases "extract_all env engine1 ts")
        show ?thesis
        proof (cases res)
          case None
          with ext show ?thesis
            by (simp add: transfer PostMessage_extract_fails [OF ser' conv] new_events_def stub_calls_append)
        next
          case (Some channels)
          with ext have ext': "extract_all env engine1 ts = (engine2, Some channels)" by simp
          have "stub_calls (new_events w (PostMessage env w channel v transfer))
              = [Browser_ReceivePostMessage channel \<lparr>cloneable = m, ports = channels\<rparr>]"
            by (simp add: transfer PostMessage_sends [OF ser' conv ext'] new_events_def stub_calls_append)
          moreover have "length channels = length ts"
            using ext' by (rule extract_all_length)
          ultimately show ?thesis
            using ser' conv ext' transfer by auto
        qed
      qed
    qed
  qed
qed

theorem postMessage_all_ports_or_nothing_witness:
  "SerializeV8Value test_env (isolate test_world) (JS_number 1) = (test_engine, Some (JS_number 1))
   \<and> ConvertFromV8 test_env test_engine (JS_array [JS_MessagePort 1, JS_object])
       = Some [JS_MessagePort 1, JS_object]
   \<and> snd (extract_all test_env test_engine [JS_MessagePort 1, JS_object]) = None
   \<and> pending_exception (isolate (PostMessage test_env test_world ''chan'' (JS_number 1)
         (Some (JS_array [JS_MessagePort 1, JS_object]))))
       = Some ''Invalid value for transfer''
   \<and> stub_calls (trace (PostMessage test_env test_world ''chan'' (JS_number 1)
         (Some (JS_array [JS_MessagePort 1, JS_object])))) = []
   \<and> ConvertFromV8 test_env test_engine (JS_array [JS_MessagePort 1, JS_number 42]) = None
   \<and> pending_exception (isolate (PostMessage test_env test_world ''chan'' (JS_number 1)
         (Some (JS_array [JS_MessagePort 1, JS_number 42]))))
       = Some ''Invalid value for transfer''
   \<and> stub_calls (trace (PostMessage test_env test_world ''chan'' (JS_number 1)
         (Some (JS_array [JS_MessagePort 1, JS_number 42])))) = []"
proof -
  have ok: "SerializeV8Value test_env (isolate test_world) (JS_number 1) = (test_engine, Some (JS_number 1))"
    by (simp add: test_env_simps test_world_simps test_SerializeV8Value_def)
  have conv: "ConvertFromV8 test_env test_engine (JS_array [JS_MessagePort 1, JS_object])
       = Some [JS_MessagePort 1, JS_object]"
    by (simp add: test_env_simps)
  have bad: "snd (extract_all test_env test_engine [JS_MessagePort 1, JS_object]) = None"
    by (simp add: test_env_simps test_engine_def)
  have no_conv: "ConvertFromV8 test_env test_engine (JS_array [JS_MessagePort 1, JS_number 42]) = None"
    by (simp add: test_env_simps)
  have rejected: "pending_exception (isolate (PostMessage test_env test_world ''chan'' (JS_number 1)
         (Some (JS_array [JS_MessagePort 1, JS_object]))))
       = Some ''Invalid value for transfer''
     \<and> stub_calls (trace (PostMessage test_env test_world ''chan'' (JS_number 1)
         (Some (JS_array [JS_MessagePort 1, JS_object])))) = stub_calls (trace test_world)"
    using ok conv bad
      postMessage_all_ports_or_nothing [where env = test_env and w = test_world and v = "JS_number 1"
        and ?engine1.0 = test_engine and m = "JS_number 1"
        and t = "JS_array [JS_MessagePort 1, JS_object]" and channel = "''chan''"]
    by blast
  have unconverted: "pending_exception (isolate (PostMessage test_env test_world ''chan'' (JS_number 1)
         (Some (JS_array [JS_MessagePort 1, JS_number 42]))))
       = Some ''Invalid value for transfer''
     \<and> stub_calls (trace (PostMessage test_env test_world ''chan'' (JS_number 1)
         (Some (JS_array [JS_MessagePort 1, JS_number 42])))) = stub_calls (trace test_world)"
    using ok no_conv
      postMessage_all_ports_or_nothing [where env = test_env and w = test_world and v = "JS_number 1"
        and ?engine1.0 = test_engine and m = "JS_number 1"
        and t = "JS_array [JS_MessagePort 1, JS_number 42]" and channel = "''chan''"]
    by blast
  show ?thesis
    using ok conv bad no_conv rejected unconverted
    by (simp add: test_world_simps)
qed

section \<open>postMessage: ports detached before an invalid nominated value\<close>

text \<open>
  Claim C9, as stated: if the k-th nominated value is invalid, the first k-1 ports have
  been detached although no message is sent. It fails in two ways. With the transfer list
  \<open>[port 1, 42]\<close> the second nominated value is invalid, but it is not an object: the
  list does not convert, the method throws before the extraction loop, and port 1 stays
  attached. And with the transfer list \<open>[port 1, a plain object]\<close> and a message value
  that does not serialize, the method returns before it looks at the transfer list, and
  port 1 stays attached as well.
\<close>

theorem postMessage_detaches_before_invalid_counterexample:
  "DisentangleAndExtractMessagePortChannel test_env test_engine (JS_MessagePort 1)
     = (test_engine\<lparr>heap := [1]\<rparr>, Some 1)
   \<and> DisentangleAndExtractMessagePortChannel test_env (test_engine\<lparr>heap := [1]\<rparr>) (JS_number 42)
     = (test_engine\<lparr>heap := [1]\<rparr>, None)
   \<and> isolate (PostMessage test_env test_world ''chan'' (JS_number 1)
        (Some (JS_array [JS_MessagePort 1, JS_number 42])))
     = \<lparr>pending_exception = Some ''Invalid value for transfer'', heap = []\<rparr>
   \<and> extracted (trace (PostMessage test_env test_world ''chan'' (JS_number 1)
        (Some (JS_array [JS_MessagePort 1, JS_number 42])))) = []
   \<and> DisentangleAndExtractMessagePortChannel test_env (test_engine\<lparr>heap := [1]\<rparr>) JS_object
     = (test_engine\<lparr>heap := [1]\<rparr>, None)
   \<and> heap (isolate (PostMessage test_env test_world ''chan'' JS_function
        (Some (JS_array [JS_MessagePort 1, JS_object])))) = []
   \<and> extracted (trace (PostMessage test_env test_world ''chan'' JS_function
        (Some (JS_array [JS_MessagePort 1, JS_object])))) = []"
proof -
  have fails: "SerializeV8Value test_env (isolate test_world) JS_function
      = (ThrowException test_engine ''An object could not be cloned.'', None)"
    by (simp add: test_env_simps test_world_simps test_SerializeV8Value_def)
  have ok: "SerializeV8Value test_env (isolate test_world) (JS_number 1) = (test_engine, Some (JS_number 1))"
    by (simp add: test_env_simps test_world_simps test_SerializeV8Value_def)
  have no_conv: "ConvertFromV8 test_env test_engine (JS_array [JS_MessagePort 1, JS_number 42]) = None"
    by (simp add: test_env_simps)
  show ?thesis
    unfolding PostMessage_serialize_fails [OF fails] PostMessage_convert_fails [OF ok no_conv]
    by (simp add: test_env_simps test_world_simps ThrowException_def test_engine_def)
qed

text \<open>
  Claim C9, amended: in a postMessage call whose message value serializes and whose
  transfer list converts, the nominated values are extracted from left to right, each in
  the engine as the extractions before it have left it. If the k-th nominated value is the
  first that the extractor rejects, the extractor has been called on the first k values
  in their order and on no other, the engine on return is the engine after the k-1
  successful extractions and the rejected one, with "Invalid value for transfer"
  thrown: what the extractions have done to the first k-1 ports stays done, although no
  message is sent. If none is rejected, the extractor has been called on every nominated
  value in order and the ports travel with the message.
\<close>

theorem postMessage_detaches_before_invalid:
  "(SerializeV8Value env (isolate w) v = (engine1, Some m)
      \<longrightarrow> ConvertFromV8 env engine1 t = Some (good @ bad # rest)
      \<longrightarrow> extract_all env engine1 good = (engine2, Some channels)
      \<longrightarrow> DisentangleAndExtractMessagePortChannel env engine2 bad = (engine3, None)
      \<longrightarrow> isolate (PostMessage env w channel v (Some t))
              = ThrowException engine3 ''Invalid value for transfer''
        \<and> extracted (new_events w (PostMessage env w channel v (Some t))) = good @ [bad]
        \<and> stub_calls (new_events w (PostMessage env w channel v (Some t))) = [])
   \<and> (SerializeV8Value env (isolate w) v = (engine1, Some m)
      \<longrightarrow> ConvertFromV8 env engine1 t = Some ts
      \<longrightarrow> extract_all env engine1 ts = (engine2, Some channels)
      \<longrightarrow> isolate (PostMessage env w channel v (Some t)) = engine2
        \<and> extracted (new_events w (PostMessage env w channel v (Some t))) = ts
        \<and> stub_calls (new_events w (PostMessage env w channel v (Some t)))
            = [Browser_ReceivePostMessage channel \<lparr>cloneable = m, ports = channels\<rparr>])"
proof (intro conjI impI)
  assume ser: "SerializeV8Value env (isolate w) v = (engine1, Some m)"
    and conv: "ConvertFromV8 env engine1 t = Some (good @ bad # rest)"
    and good: "extract_all env engine1 good = (engine2, Some channels)"
    and bad: "DisentangleAndExtractMessagePortChannel env engine2 bad = (engine3, None)"
  from extract_all_first_rejected [OF good bad]
  have ext: "extract_all env engine1 (good @ bad # rest) = (engine3, None)"
    and att: "attempted env engine1 (good @ bad # rest) = good @ [bad]"
    by simp_all
  note eq = PostMessage_extract_fails [OF ser conv ext]
  show "isolate (PostMessage env w channel v (Some t)) = ThrowException engine3 ''Invalid value for transfer''"
    by (simp add: eq)
  show "extracted (new_events w (PostMessage env w channel v (Some t))) = good @ [bad]"
    by (simp add: eq att new_events_def extracted_append del: map_append)
  show "stub_calls (new_events w (PostMessage env w channel v (Some t))) = []"
    by (simp add: eq new_events_def stub_calls_append del: map_append)
next
  assume ser: "SerializeV8Value env (isolate w) v = (engine1, Some m)"
    and conv: "ConvertFromV8 env engine1 t = Some ts"
    and ext: "extract_all env engine1 ts = (engine2, Some channels)"
  note eq = PostMessage_sends [OF ser conv ext]
  show "isolate (PostMessage env w channel v (Some t)) = engine2"
    by (simp add: eq)
  show "extracted (new_events w (PostMessage env w channel v (Some t))) = ts"
    by (simp add: eq new_events_def extracted_append)
  show "stub_calls (new_events w (PostMessage env w channel v (Some t)))
            = [Browser_ReceivePostMessage channel \<lparr>cloneable = m, ports = channels\<rparr>]"
    by (simp add: eq new_events_def stub_calls_append)
qed

theorem postMessage_detaches_before_invalid_witness:
  "SerializeV8Value test_env (isolate test_world) (JS_number 1) = (test_engine, Some (JS_number 1))
   \<and> ConvertFromV8 test_env test_engine (JS_array [JS_MessagePort 1, JS_object, JS_MessagePort 3])
       = Some ([JS_MessagePort 1] @ JS_object # [JS_MessagePort 3])
   \<and> extract_all test_env test_engine [JS_MessagePort 1] = (test_engine\<lparr>heap := [1]\<rparr>, Some [1])
   \<and> DisentangleAndExtractMessagePortChannel test_env (test_engine\<lparr>heap := [1]\<rparr>) JS_object
       = (test_engine\<lparr>heap := [1]\<rparr>, None)
   \<and> isolate (PostMessage test_env test_world ''chan'' (JS_number 1)
        (Some (JS_array [JS_MessagePort 1, JS_object, JS_MessagePort 3])))
       = \<lparr>pending_exception = Some ''Invalid value for transfer'', heap = [1]\<rparr>
   \<and> extracted (new_events test_world (PostMessage test_env test_world ''chan'' (JS_number 1)
        (Some (JS_array [JS_MessagePort 1, JS_object, JS_MessagePort 3]))))
       = [JS_MessagePort 1, JS_object]
   \<and> stub_calls (new_events test_world (PostMessage test_env test_world ''chan'' (JS_number 1)
        (Some (JS_array [JS_MessagePort 1, JS_object, JS_MessagePort 3])))) = []
   \<and> ConvertFromV8 test_env test_engine (JS_array [JS_MessagePort 1, JS_MessagePort 3])
       = Some [JS_MessagePort 1, JS_MessagePort 3]
   \<and> extract_all test_env test_engine [JS_MessagePort 1, JS_MessagePort 3]
       = (test_engine\<lparr>heap := [1, 3]\<rparr>, Some [1, 3])
   \<and> stub_calls (new_events test_world (PostMessage test_env test_world ''chan'' (JS_number 1)
        (Some (JS_array [JS_MessagePort 1, JS_MessagePort 3]))))
       = [Browser_ReceivePostMessage ''chan'' \<lparr>cloneable = JS_number 1, ports = [1, 3]\<rparr>]"
proof -
  have ok: "SerializeV8Value test_env (isolate test_world) (JS_number 1) = (test_engine, Some (JS_number 1))"
    by (simp add: test_env_simps test_world_simps test_SerializeV8Value_def)
  have conv: "ConvertFromV8 test_env test_engine (JS_array [JS_MessagePort 1, JS_object, JS_MessagePort 3])
       = Some ([JS_MessagePort 1] @ JS_object # [JS_MessagePort 3])"
    by (simp add: test_env_simps)
  have good: "extract_all test_env test_engine [JS_MessagePort 1] = (test_engine\<lparr>heap := [1]\<rparr>, Some [1])"
    by (simp add: test_env_simps test_engine_def)
  have bad: "DisentangleAndExtractMessagePortChannel test_env (test_engine\<lparr>heap := [1]\<rparr>) JS_object
       = (test_engine\<lparr>heap := [1]\<rparr>, None)"
    by (simp add: test_env_simps)
  have conv2: "ConvertFromV8 test_env test_engine (JS_array [JS_MessagePort 1, JS_MessagePort 3])
       = Some [JS_MessagePort 1, JS_MessagePort 3]"
    by (simp add: test_env_simps)
  have all: "extract_all test_env test_engine [JS_MessagePort 1, JS_MessagePort 3]
       = (test_engine\<lparr>heap := [1, 3]\<rparr>, Some [1, 3])"
    by (simp add: test_env_simps test_engine_def)
  have fail_case: "isolate (PostMessage test_env test_world ''chan'' (JS_number 1)
        (Some (JS_array [JS_MessagePort 1, JS_object, JS_MessagePort 3])))
       = ThrowException (test_engine\<lparr>heap := [1]\<rparr>) ''Invalid value for transfer''
   \<and> extracted (new_events test_world (PostMessage test_env test_world ''chan'' (JS_number 1)
        (Some (JS_array [JS_MessagePort 1, JS_object, JS_MessagePort 3]))))
       = [JS_MessagePort 1] @ [JS_object]
   \<and> stub_calls (new_events test_world (PostMessage test_env test_world ''chan'' (JS_number 1)
        (Some (JS_array [JS_MessagePort 1, JS_object, JS_MessagePort 3])))) = []"
    using ok conv good bad
      postMessage_detaches_before_invalid [of test_env test_world "JS_number 1" test_engine "JS_number 1"
        "JS_array [JS_MessagePort 1, JS_object, JS_MessagePort 3]" "[JS_MessagePort 1]" JS_object
        "[JS_MessagePort 3]" "test_engine\<lparr>heap := [1]\<rparr>" "[1]" "test_engine\<lparr>heap := [1]\<rparr>" "''chan''"]
    by blast
  have sent_case: "stub_calls (new_events test_world (PostMessage test_env test_world ''chan'' (JS_number 1)
        (Some (JS_array [JS_MessagePort 1, JS_MessagePort 3]))))
       = [Browser_ReceivePostMessage ''chan'' \<lparr>cloneable = JS_number 1, ports = [1, 3]\<rparr>]"
    using ok conv2 all
      postMessage_detaches_before_invalid [of test_env test_world "JS_number 1" test_engine "JS_number 1"
        "JS_array [JS_MessagePort 1, JS_MessagePort 3]" "[]" JS_object
        "[]" "test_engine\<lparr>heap := [1, 3]\<rparr>" "[1, 3]" "test_engine" "''chan''"
        "[JS_MessagePort 1, JS_MessagePort 3]"]
    by blast
  show ?thesis
    using ok conv good bad conv2 all fail_case sent_case
    by (simp add: ThrowException_def test_engine_def)
qed

section \<open>Failures are thrown to the caller\<close>

lemma test_serializer_sets_exception: "serializer_sets_exception test_env"
  by (simp add: serializer_sets_exception_def test_env_simps test_SerializeV8Value_def
      ThrowException_def)

text \<open>
  Claim C8. A failure of serialization or of transfer validation is reported to the
  caller when the call returns, as a pending exception; no failing call returns as a
  successful one does. For a failed serialization the methods themselves only return,
  and the exception is the one that the serializer has set, as its contract says; the
  two methods with a result return the empty handle. For a failed transfer validation
  (a transfer list that does not convert, a nominated value that the extractor rejects)
  postMessage throws "Invalid value for transfer" itself.
\<close>

theorem failures_are_thrown:
  assumes "serializer_sets_exception env"
  shows "(SerializeV8Value env (isolate w) v = (engine1, None)
            \<longrightarrow> pending_exception (isolate (Send env w internal channel v)) \<noteq> None
              \<and> pending_exception (isolate (fst (SendSync env w internal channel v))) \<noteq> None
              \<and> snd (SendSync env w internal channel v) = None
              \<and> pending_exception (isolate (SendTo env w internal send_to_all web_contents_id channel v)) \<noteq> None
              \<and> pending_exception (isolate (SendToHost env w channel v)) \<noteq> None
              \<and> pending_exception (isolate (fst (Invoke env w internal channel v))) \<noteq> None
              \<and> snd (Invoke env w internal channel v) = None
              \<and> pending_exception (isolate (PostMessage env w channel v transfer)) \<noteq> None)
       \<and> (SerializeV8Value env (isolate w) v = (engine1, Some m)
            \<longrightarrow> ConvertFromV8 env engine1 t = None
            \<longrightarrow> pending_exception (isolate (PostMessage env w channel v (Some t)))
                  = Some ''Invalid value for transfer'')
       \<and> (SerializeV8Value env (isolate w) v = (engine1, Some m)
            \<longrightarrow> ConvertFromV8 env engine1 t = Some ts
            \<longrightarrow> extract_all env engine1 ts = (engine2, None)
            \<longrightarrow> pending_exception (isolate (PostMessage env w channel v (Some t)))
                  = Some ''Invalid value for transfer'')"
proof (intro conjI impI)
  assume fails: "SerializeV8Value env (isolate w) v = (engine1, None)"
  with assms have thrown: "pending_exception engine1 \<noteq> None"
    unfolding serializer_sets_exception_def by blast
  show "pending_exception (isolate (Send env w internal channel v)) \<noteq> None"
    using thrown by (simp add: Send_def serialize_fails [OF fails])
  show "pending_exception (isolate (fst (SendSync env w internal channel v))) \<noteq> None"
    using thrown by (simp add: SendSync_def serialize_fails [OF fails])
  show "snd (SendSync env w internal channel v) = None"
    by (simp add: SendSync_def serialize_fails [OF fails])
  show "pending_exception (isolate (SendTo env w internal send_to_all web_contents_id channel v)) \<noteq> None"
    using thrown by (simp add: SendTo_def serialize_fails [OF fails])
  show "pending_exception (isolate (SendToHost env w channel v)) \<noteq> None"
    using thrown by (simp add: SendToHost_def serialize_fails [OF fails])
  show "pending_exception (isolate (fst (Invoke env w internal channel v))) \<noteq> None"
    using thrown by (simp add: Invoke_def serialize_fails [OF fails])
  show "snd (Invoke env w internal channel v) = None"
    by (simp add: Invoke_def serialize_fails [OF fails])
  show "pending_exception (isolate (PostMessage env w channel v transfer)) \<noteq> None"
    using thrown by (simp add: PostMessage_serialize_fails [OF fails])
next
  assume "SerializeV8Value env (isolate w) v = (engine1, Some m)"
    and "ConvertFromV8 env engine1 t = None"
  then show "pending_exception (isolate (PostMessage env w channel v (Some t)))
      = Some ''Invalid value for transfer''"
    by (simp add: PostMessage_convert_fails ThrowException_def)
next
  assume "SerializeV8Value env (isolate w) v = (engine1, Some m)"
    and "ConvertFromV8 env engine1 t = Some ts"
    and "extract_all env engine1 ts = (engine2, None)"
  then show "pending_exception (isolate (PostMessage env w channel v (Some t)))
      = Some ''Invalid value for transfer''"
    by (simp add: PostMessage_extract_fails ThrowException_def)
qed

theorem failures_are_thrown_witness:
  "serializer_sets_exception test_env
   \<and> SerializeV8Value test_env (isolate test_world) JS_function
       = (ThrowException test_engine ''An object could not be cloned.'', None)
   \<and> pending_exception (isolate (Send test_env test_world False ''ping'' JS_function)) \<noteq> None
   \<and> pending_exception (isolate (fst (Invoke test_env test_world False ''ping'' JS_function))) \<noteq> None
   \<and> snd (Invoke test_env test_world False ''ping'' JS_function) = None
   \<and> SerializeV8Value test_env (isolate test_world) (JS_number 1) = (test_engine, Some (JS_number 1))
   \<and> ConvertFromV8 test_env test_engine (JS_number 42) = None
   \<and> pending_exception (isolate (PostMessage test_env test_world ''chan'' (JS_number 1) (Some (JS_number 42))))
       = Some ''Invalid value for transfer''
   \<and> ConvertFromV8 test_env test_engine (JS_array [JS_object]) = Some [JS_object]
   \<and> extract_all test_env test_engine [JS_object] = (test_engine, None)
   \<and> pending_exception (isolate (PostMessage test_env test_world ''chan'' (JS_number 1)
        (Some (JS_array [JS_object]))))
       = Some ''Invalid value for transfer''"
proof -
  have fails: "SerializeV8Value test_env (isolate test_world) JS_function
       = (ThrowException test_engine ''An object could not be cloned.'', None)"
    by (simp add: test_env_simps test_world_simps test_SerializeV8Value_def)
  have ok: "SerializeV8Value test_env (isolate test_world) (JS_number 1) = (test_engine, Some (JS_number 1))"
    by (simp add: test_env_simps test_world_simps test_SerializeV8Value_def)
  have conv1: "ConvertFromV8 test_env test_engine (JS_number 42) = None"
    by (simp add: test_env_simps)
  have conv2: "ConvertFromV8 test_env test_engine (JS_array [JS_object]) = Some [JS_object]"
    by (simp add: test_env_simps)
  have ext: "extract_all test_env test_engine [JS_object] = (test_engine, None)"
    by (simp add: test_env_simps)
  have one: "pending_exception (isolate (Send test_env test_world False ''ping'' JS_function)) \<noteq> None
     \<and> pending_exception (isolate (fst (Invoke test_env test_world False ''ping'' JS_function))) \<noteq> None
     \<and> snd (Invoke test_env test_world False ''ping'' JS_function) = None"
    using fails failures_are_thrown [OF test_serializer_sets_exception, where w = test_world
        and v = JS_function and ?engine1.0 = "ThrowException test_engine ''An object could not be cloned.''"
        and internal = False and channel = "''ping''"]
    by blast
  have two: "pending_exception (isolate (PostMessage test_env test_world ''chan'' (JS_number 1) (Some (JS_number 42))))
       = Some ''Invalid value for transfer''"
    using ok conv1 failures_are_thrown [OF test_serializer_sets_exception, where w = test_world
        and v = "JS_number 1" and ?engine1.0 = test_engine and m = "JS_number 1" and t = "JS_number 42"
        and channel = "''chan''"]
    by blast
  have three: "pending_exception (isolate (PostMessage test_env test_world ''chan'' (JS_number 1)
        (Some (JS_array [JS_object]))))
       = Some ''Invalid value for transfer''"
    using ok conv2 ext failures_are_thrown [OF test_serializer_sets_exception, where w = test_world
        and v = "JS_number 1" and ?engine1.0 = test_engine and m = "JS_number 1"
        and t = "JS_array [JS_object]" and ts = "[JS_object]" and ?engine2.0 = test_engine
        and channel = "''chan''"]
    by blast
  show ?thesis
    using test_serializer_sets_exception fails ok conv1 conv2 ext one two three by blast
qed

section \<open>Helper lemmas on runs and on the table of outstanding calls\<close>

lemma serialize_eq:
  "serialize env w v =
     (w\<lparr>isolate := fst (SerializeV8Value env (isolate w) v), trace := trace w @ [Serialize_call v]\<rparr>,
      snd (SerializeV8Value env (isolate w) v))"
  by (simp add: serialize_def log_event_def split: prod.splits)

lemma resolutions_map_Extract [simp]: "resolutions p (map Extract_call ts) = []"
  by (induction ts) simp_all

lemma Send_leaves_calls: "leaves_calls w (Send env w internal channel v)"
  by (simp add: leaves_calls_def Send_def serialize_eq browser_call_def log_event_def
      resolutions_append split: option.splits)

lemma SendSync_leaves_calls: "leaves_calls w (fst (SendSync env w internal channel v))"
  by (simp add: leaves_calls_def SendSync_def serialize_eq browser_call_def log_event_def
      resolutions_append split: option.splits)

lemma SendTo_leaves_calls:
  "leaves_calls w (SendTo env w internal send_to_all web_contents_id channel v)"
  by (simp add: leaves_calls_def SendTo_def serialize_eq browser_call_def log_event_def
      resolutions_append split: option.splits)

lemma SendToHost_leaves_calls: "leaves_calls w (SendToHost env w channel v)"
  by (simp add: leaves_calls_def SendToHost_def serialize_eq browser_call_def log_event_def
      resolutions_append split: option.splits)

lemma extract_ports_leaves_calls: "leaves_calls w (fst (extract_ports env w ts acc))"
  by (simp add: extract_ports_eq leaves_calls_def resolutions_append split: prod.splits option.splits)

lemma leaves_calls_trans: "leaves_calls w w' \<Longrightarrow> leaves_calls w' w'' \<Longrightarrow> leaves_calls w w''"
  by (simp add: leaves_calls_def)

lemma PostMessage_leaves_calls: "leaves_calls w (PostMessage env w channel v transfer)"
proof -
  obtain engine1 out where ser: "SerializeV8Value env (isolate w) v = (engine1, out)"
    by (cases "SerializeV8Value env (isolate w) v")
  show ?thesis
  proof (cases out)
    case None
    with ser show ?thesis
      by (simp add: PostMessage_serialize_fails leaves_calls_def resolutions_append)
  next
    case (Some m)
    note ser' = ser [unfolded Some]
    show ?thesis
    proof (cases transfer)
      case None
      then show ?thesis
        by (simp add: PostMessage_no_transfer [OF ser'] leaves_calls_def resolutions_append)
    next
      case transfer: (Some t)
      show ?thesis
      proof (cases "ConvertFromV8 env engine1 t")
        case None
        then show ?thesis
          by (simp add: transfer PostMessage_convert_fails [OF ser'] leaves_calls_def resolutions_append)
      next
        case conv: (Some ts)
        obtain engine2 res where ext: "extract_all env engine1 ts = (engine2, res)"
          by (cases "extract_all env engine1 ts")
        show ?thesis
        proof (cases res)
          case None
          with ext show ?thesis
            by (simp add: transfer PostMessage_extract_fails [OF ser' conv] leaves_calls_def
                resolutions_append)
        next
          case (Some channels)
          with ext show ?thesis
            by (simp add: transfer PostMessage_sends [OF ser' conv] leaves_calls_def
                resolutions_append)
        qed
      qed
    qed
  qed
qed

lemma Invoke_fails:
  "SerializeV8Value env (isolate w) v = (engine1, None) \<Longrightarrow>
   Invoke env w internal channel v = (w\<lparr>isolate := engine1, trace := trace w @ [Serialize_call v]\<rparr>, None)"
  by (simp add: Invoke_def serialize_fails)

lemma Invoke_succeeds:
  "SerializeV8Value env (isolate w) v = (engine1, Some m) \<Longrightarrow>
   Invoke env w internal channel v =
     (w\<lparr>isolate := engine1,
        trace := trace w @ [Serialize_call v, Promise_created (next_promise w),
                   Stub (Browser_Invoke internal channel m (next_call_id w))],
        next_promise := Suc (next_promise w),
        pending_calls := (pending_calls w)(next_call_id w \<mapsto> Resolve_promise (next_promise w)),
        next_call_id := Suc (next_call_id w)\<rparr>,
      Some (next_promise w))"
  by (simp add: Invoke_def serialize_succeeds Promise_new_def browser_Invoke_def log_event_def Let_def)

lemma deliver_reply_unknown:
  "pending_calls w call_id = None \<Longrightarrow> deliver_reply env w call_id result = w"
  by (simp add: deliver_reply_def)

lemma deliver_reply_known:
  "pending_calls w call_id = Some (Resolve_promise p) \<Longrightarrow>
   deliver_reply env w call_id result =
     w\<lparr>pending_calls := (pending_calls w)(call_id := None),
       trace := trace w @ [Promise_resolved p (DeserializeV8Value env (isolate w) result)]\<rparr>"
  by (simp add: deliver_reply_def Promise_Resolve_def log_event_def)

lemma table_ok_initial: "table_ok (initial_world engine)"
  by (simp add: table_ok_def initial_world_def)

lemma table_ok_leaves_calls: "table_ok w \<Longrightarrow> leaves_calls w w' \<Longrightarrow> table_ok w'"
  by (simp add: table_ok_def leaves_calls_def)

lemma table_ok_Invoke:
  assumes "table_ok w"
  shows "table_ok (fst (Invoke env w internal channel v))"
proof -
  obtain engine1 out where ser: "SerializeV8Value env (isolate w) v = (engine1, out)"
    by (cases "SerializeV8Value env (isolate w) v")
  show ?thesis
  proof (cases out)
    case None
    with ser assms show ?thesis
      by (simp add: Invoke_fails table_ok_def resolutions_append)
  next
    case (Some m)
    note ser' = ser [unfolded Some]
    from assms show ?thesis
      unfolding Invoke_succeeds [OF ser'] table_ok_def
      by (auto simp: resolutions_append less_Suc_eq)
  qed
qed

lemma table_ok_deliver_reply:
  assumes "table_ok w"
  shows "table_ok (deliver_reply env w call_id result)"
proof (cases "pending_calls w call_id")
  case None
  with assms show ?thesis by (simp add: deliver_reply_unknown)
next
  case (Some callback)
  obtain p where p: "callback = Resolve_promise p" by (cases callback)
  note known = deliver_reply_known [OF Some [unfolded p]]
  from assms Some p have unresolved: "resolutions p (trace w) = []" and created: "p < next_promise w"
    and only: "\<And>j. pending_calls w j = Some (Resolve_promise p) \<Longrightarrow> j = call_id"
    unfolding table_ok_def by blast+
  from assms show ?thesis
    unfolding known table_ok_def
    using unresolved created only
    by (auto simp: resolutions_append)
qed

lemma table_ok_step: "table_ok w \<Longrightarrow> table_ok (step env w a)"
proof (cases a)
  case (Script_runs f)
  assume "table_ok w"
  then show ?thesis by (simp add: Script_runs table_ok_def)
qed (simp_all add: table_ok_Invoke table_ok_deliver_reply
    table_ok_leaves_calls [OF _ Send_leaves_calls] table_ok_leaves_calls [OF _ SendSync_leaves_calls]
    table_ok_leaves_calls [OF _ SendTo_leaves_calls] table_ok_leaves_calls [OF _ SendToHost_leaves_calls]
    table_ok_leaves_calls [OF _ PostMessage_leaves_calls])

lemma table_ok_run: "table_ok w \<Longrightarrow> table_ok (run env w as)"
  by (induction as arbitrary: w) (simp_all add: table_ok_step)

lemma pending_persists_step:
  assumes ok: "table_ok w" and entry: "pending_calls w i = Some callback"
    and other: "\<not> is_reply_to i a"
  shows "pending_calls (step env w a) i = Some callback"
proof (cases a)
  case (Call_send internal channel v)
  with entry Send_leaves_calls [of w env internal channel v] show ?thesis
    by (simp add: leaves_calls_def)
next
  case (Call_sendSync internal channel v)
  with entry SendSync_leaves_calls [of w env internal channel v] show ?thesis
    by (simp add: leaves_calls_def)
next
  case (Call_sendTo internal send_to_all web_contents_id channel v)
  with entry SendTo_leaves_calls [of w env internal send_to_all web_contents_id channel v] show ?thesis
    by (simp add: leaves_calls_def)
next
  case (Call_sendToHost channel v)
  with entry SendToHost_leaves_calls [of w env channel v] show ?thesis
    by (simp add: leaves_calls_def)
next
  case (Call_postMessage channel v transfer)
  with entry PostMessage_leaves_calls [of w env channel v transfer] show ?thesis
    by (simp add: leaves_calls_def)
next
  case (Script_runs f)
  with entry show ?thesis by simp
next
  case (Call_invoke internal channel v)
  obtain p where p: "callback = Resolve_promise p" by (cases callback)
  from ok entry p have issued: "i < next_call_id w"
    unfolding table_ok_def by blast
  obtain engine1 out where ser: "SerializeV8Value env (isolate w) v = (engine1, out)"
    by (cases "SerializeV8Value env (isolate w) v")
  show ?thesis
  proof (cases out)
    case None
    with ser entry show ?thesis by (simp add: Call_invoke Invoke_fails)
  next
    case (Some m)
    with ser entry issued show ?thesis by (simp add: Call_invoke Invoke_succeeds)
  qed
next
  case (Reply_arrives j result)
  with other have differs: "j \<noteq> i" by simp
  show ?thesis
  proof (cases "pending_calls w j")
    case None
    with entry show ?thesis by (simp add: Reply_arrives deliver_reply_unknown)
  next
    case (Some cb)
    obtain q where "cb = Resolve_promise q" by (cases cb)
    with Some have "pending_calls w j = Some (Resolve_promise q)" by simp
    with entry differs show ?thesis by (simp add: Reply_arrives deliver_reply_known)
  qed
qed

lemma pending_persists_run:
  "table_ok w \<Longrightarrow> pending_calls w i = Some callback \<Longrightarrow> \<not> list_ex (is_reply_to i) as \<Longrightarrow>
   pending_calls (run env w as) i = Some callback"
proof (induction as arbitrary: w)
  case Nil
  then show ?case by simp
next
  case (Cons a as)
  from Cons.prems have "table_ok (step env w a)" and "pending_calls (step env w a) i = Some callback"
    by (simp_all add: table_ok_step pending_persists_step)
  with Cons.IH Cons.prems(3) show ?case by simp
qed

section \<open>Helper lemmas: evaluation on the test engine\<close>

lemmas test_eval =
  Send_def SendSync_def SendTo_def SendToHost_def Invoke_def PostMessage_def
  serialize_def convert_transfer_def extract_port_def throw_def log_event_def browser_call_def
  browser_Invoke_def Promise_new_def Promise_Resolve_def deliver_reply_def
  initial_world_def test_env_simps test_SerializeV8Value_def test_engine_def ThrowException_def
  new_events_def Let_def

section \<open>invoke: the promise and its resolution\<close>

text \<open>
  Claim C4. After any run of the endpoint, an invoke whose argument serializes returns a
  promise and hands the message to the asynchronous primitive of the remote stub, with a
  continuation registered under a fresh correlation id. Whatever happens afterwards, as
  long as the reply with that id has not arrived the promise is unresolved; when it
  arrives, the promise is resolved, once, with the deserialization of the reply.
\<close>

theorem invoke_resolves_with_decoded_reply:
  assumes "SerializeV8Value env (isolate (run env (initial_world engine) before)) v = (engine1, Some m)"
      and "\<not> list_ex (is_reply_to (next_call_id (run env (initial_world engine) before))) later"
  shows "let w = run env (initial_world engine) before;
             p = next_promise w;
             call_id = next_call_id w;
             w1 = fst (Invoke env w internal channel v);
             w2 = run env w1 later
         in snd (Invoke env w internal channel v) = Some p
          \<and> stub_calls (new_events w w1) = [Browser_Invoke internal channel m call_id]
          \<and> resolutions p (trace w2) = []
          \<and> resolutions p (trace (step env w2 (Reply_arrives call_id reply)))
              = [DeserializeV8Value env (isolate w2) reply]"
proof -
  define w where "w = run env (initial_world engine) before"
  define w1 where "w1 = fst (Invoke env w internal channel v)"
  define w2 where "w2 = run env w1 later"
  have ok: "table_ok w"
    unfolding w_def by (rule table_ok_run [OF table_ok_initial])
  have ser: "SerializeV8Value env (isolate w) v = (engine1, Some m)"
    using assms(1) by (simp add: w_def)
  note eq = Invoke_succeeds [OF ser, of internal channel]
  have handle: "snd (Invoke env w internal channel v) = Some (next_promise w)"
    by (simp add: eq)
  have sent: "stub_calls (new_events w w1) = [Browser_Invoke internal channel m (next_call_id w)]"
    by (simp add: w1_def eq new_events_def)
  have ok1: "table_ok w1"
    unfolding w1_def using ok by (rule table_ok_Invoke)
  have entry1: "pending_calls w1 (next_call_id w) = Some (Resolve_promise (next_promise w))"
    by (simp add: w1_def eq)
  have ok2: "table_ok w2"
    unfolding w2_def using ok1 by (rule table_ok_run)
  have entry2: "pending_calls w2 (next_call_id w) = Some (Resolve_promise (next_promise w))"
    unfolding w2_def using ok1 entry1 assms(2) [folded w_def] by (rule pending_persists_run)
  from ok2 entry2 have unresolved: "resolutions (next_promise w) (trace w2) = []"
    unfolding table_ok_def by blast
  have resolved: "resolutions (next_promise w) (trace (step env w2 (Reply_arrives (next_call_id w) reply)))
      = [DeserializeV8Value env (isolate w2) reply]"
    by (simp add: deliver_reply_known [OF entry2] resolutions_append unresolved)
  from handle sent unresolved resolved show ?thesis
    by (simp add: Let_def w_def [symmetric] w1_def [symmetric] w2_def [symmetric])
qed

theorem invoke_resolves_with_decoded_reply_witness:
  "SerializeV8Value test_env
       (isolate (run test_env (initial_world test_engine)
          [Call_send False ''a'' (JS_number 0), Call_invoke False ''first'' (JS_number 1)]))
       (JS_number 2)
     = (test_engine, Some (JS_number 2))
   \<and> \<not> list_ex (is_reply_to (next_call_id (run test_env (initial_world test_engine)
          [Call_send False ''a'' (JS_number 0), Call_invoke False ''first'' (JS_number 1)])))
        ([Reply_arrives 0 (JS_number 10), Call_sendToHost ''b'' JS_function, Reply_arrives 7 (JS_number 11)]
          :: (js_value, js_value, nat list) action list)
   \<and> snd (Invoke test_env (run test_env (initial_world test_engine)
          [Call_send False ''a'' (JS_number 0), Call_invoke False ''first'' (JS_number 1)])
        False ''get'' (JS_number 2)) = Some 1
   \<and> resolutions 1 (trace (run test_env
        (fst (Invoke test_env (run test_env (initial_world test_engine)
           [Call_send False ''a'' (JS_number 0), Call_invoke False ''first'' (JS_number 1)])
           False ''get'' (JS_number 2)))
        [Reply_arrives 0 (JS_number 10), Call_sendToHost ''b'' JS_function, Reply_arrives 7 (JS_number 11)]))
     = []
   \<and> resolutions 1 (trace (step test_env (run test_env
        (fst (Invoke test_env (run test_env (initial_world test_engine)
           [Call_send False ''a'' (JS_number 0), Call_invoke False ''first'' (JS_number 1)])
           False ''get'' (JS_number 2)))
        [Reply_arrives 0 (JS_number 10), Call_sendToHost ''b'' JS_function, Reply_arrives 7 (JS_number 11)])
        (Reply_arrives 1 (JS_number 5))))
     = [JS_number 5]"
proof -
  define before :: "(js_value, js_value, nat list) action list"
    where "before = [Call_send False ''a'' (JS_number 0), Call_invoke False ''first'' (JS_number 1)]"
  define later :: "(js_value, js_value, nat list) action list"
    where "later = [Reply_arrives 0 (JS_number 10), Call_sendToHost ''b'' JS_function,
      Reply_arrives 7 (JS_number 11)]"
  have w: "run test_env (initial_world test_engine) before =
      \<lparr>isolate = test_engine,
       trace = [Serialize_call (JS_number 0), Stub (Browser_Message False ''a'' (JS_number 0)),
                Serialize_call (JS_number 1), Promise_created 0,
                Stub (Browser_Invoke False ''first'' (JS_number 1) 0)],
       next_promise = 1, pending_calls = [0 \<mapsto> Resolve_promise 0], next_call_id = 1\<rparr>"
    by (simp add: before_def test_eval)
  have ser: "SerializeV8Value test_env (isolate (run test_env (initial_world test_engine) before)) (JS_number 2)
     = (test_engine, Some (JS_number 2))"
    by (simp add: w test_env_simps test_SerializeV8Value_def)
  have quiet: "\<not> list_ex (is_reply_to (next_call_id (run test_env (initial_world test_engine) before))) later"
    by (simp add: w later_def)
  from invoke_resolves_with_decoded_reply [OF ser quiet, of False "''get''" "JS_number 5"]
  have "snd (Invoke test_env (run test_env (initial_world test_engine) before) False ''get'' (JS_number 2)) = Some 1
     \<and> resolutions 1 (trace (run test_env
          (fst (Invoke test_env (run test_env (initial_world test_engine) before) False ''get'' (JS_number 2)))
          later)) = []
     \<and> resolutions 1 (trace (step test_env (run test_env
          (fst (Invoke test_env (run test_env (initial_world test_engine) before) False ''get'' (JS_number 2)))
          later) (Reply_arrives 1 (JS_number 5)))) = [JS_number 5]"
    by (simp add: Let_def w test_env_simps)
  with ser quiet show ?thesis
    unfolding before_def later_def by blast
qed

section \<open>invoke: at most one resolution\<close>

text \<open>
  Claim C6. In every run of the endpoint, whatever the script calls and whatever replies
  the transport delivers, in whatever order, no promise is resolved more than once. The
  continuation of an asynchronous call is used once: delivering a reply removes its
  entry from the table of outstanding calls and leaves every other entry as it is. A
  reply whose correlation id is unknown, or has been resolved already, changes nothing.
\<close>

theorem invoke_resolves_at_most_once:
  "(\<forall>p. length (resolutions p (trace (run env (initial_world engine) actions))) \<le> 1)
   \<and> (pending_calls w call_id = None \<longrightarrow> deliver_reply env w call_id result = w)
   \<and> pending_calls (deliver_reply env w call_id result) call_id = None
   \<and> (\<forall>j. j \<noteq> call_id
        \<longrightarrow> pending_calls (deliver_reply env w call_id result) j = pending_calls w j)
   \<and> deliver_reply env (deliver_reply env w call_id result) call_id result'
       = deliver_reply env w call_id result"
proof -
  have "table_ok (run env (initial_world engine) actions)"
    by (rule table_ok_run [OF table_ok_initial])
  then have once: "\<forall>p. length (resolutions p (trace (run env (initial_world engine) actions))) \<le> 1"
    unfolding table_ok_def by blast
  have removed: "pending_calls (deliver_reply env w call_id result) call_id = None"
  proof (cases "pending_calls w call_id")
    case None
    then show ?thesis by (simp add: deliver_reply_unknown)
  next
    case (Some callback)
    obtain p where "callback = Resolve_promise p" by (cases callback)
    with Some show ?thesis by (simp add: deliver_reply_known)
  qed
  have others: "\<forall>j. j \<noteq> call_id
        \<longrightarrow> pending_calls (deliver_reply env w call_id result) j = pending_calls w j"
  proof (cases "pending_calls w call_id")
    case None
    then show ?thesis by (simp add: deliver_reply_unknown)
  next
    case (Some callback)
    obtain p where "callback = Resolve_promise p" by (cases callback)
    with Some show ?thesis by (simp add: deliver_reply_known)
  qed
  from removed have again: "deliver_reply env (deliver_reply env w call_id result) call_id result'
       = deliver_reply env w call_id result"
    by (rule deliver_reply_unknown)
  from once removed others again show ?thesis
    by (simp add: deliver_reply_unknown)
qed

theorem invoke_resolves_at_most_once_witness:
  "length (resolutions 0 (trace (run test_env (initial_world test_engine)
       [Call_invoke False ''get'' (JS_number 1), Reply_arrives 0 (JS_number 5),
        Reply_arrives 0 (JS_number 6), Reply_arrives 4 (JS_number 7)]))) \<le> 1
   \<and> resolutions 0 (trace (run test_env (initial_world test_engine)
       [Call_invoke False ''get'' (JS_number 1), Reply_arrives 0 (JS_number 5),
        Reply_arrives 0 (JS_number 6), Reply_arrives 4 (JS_number 7)])) = [JS_number 5]
   \<and> pending_calls (initial_world test_engine :: (js_value, js_value, nat, nat list) world) 4 = None
   \<and> deliver_reply test_env (initial_world test_engine) 4 (JS_number 7) = initial_world test_engine
   \<and> (1::nat) \<noteq> 0
   \<and> pending_calls (deliver_reply test_env
        (run test_env (initial_world test_engine)
           [Call_invoke False ''get'' (JS_number 1), Call_invoke False ''put'' (JS_number 2)])
        0 (JS_number 5)) 1
     = pending_calls (run test_env (initial_world test_engine)
           [Call_invoke False ''get'' (JS_number 1), Call_invoke False ''put'' (JS_number 2)]) 1
   \<and> pending_calls (run test_env (initial_world test_engine)
           [Call_invoke False ''get'' (JS_number 1), Call_invoke False ''put'' (JS_number 2)]) 1
     = Some (Resolve_promise 1)"
proof -
  have run1: "resolutions 0 (trace (run test_env (initial_world test_engine)
       [Call_invoke False ''get'' (JS_number 1), Reply_arrives 0 (JS_number 5),
        Reply_arrives 0 (JS_number 6), Reply_arrives 4 (JS_number 7)])) = [JS_number 5]"
    by (simp add: test_eval)
  have empty: "pending_calls (initial_world test_engine :: (js_value, js_value, nat, nat list) world) 4 = None"
    by (simp add: initial_world_def)
  have entry: "pending_calls (run test_env (initial_world test_engine)
           [Call_invoke False ''get'' (JS_number 1), Call_invoke False ''put'' (JS_number 2)]) 1
     = Some (Resolve_promise 1)"
    by (simp add: test_eval)
  show ?thesis
    using run1 empty entry
      invoke_resolves_at_most_once [of test_env test_engine
        "[Call_invoke False ''get'' (JS_number 1), Reply_arrives 0 (JS_number 5),
          Reply_arrives 0 (JS_number 6), Reply_arrives 4 (JS_number 7)]"
        "initial_world test_engine" 4 "JS_number 7" "JS_number 7"]
      invoke_resolves_at_most_once [of test_env test_engine "[]"
        "run test_env (initial_world test_engine)
           [Call_invoke False ''get'' (JS_number 1), Call_invoke False ''put'' (JS_number 2)]"
        0 "JS_number 5" "JS_number 5"]
    by simp
qed

end
